theory Spec2Isabelle
  imports Complex_Main
begin

section \<open>Numbers, text and randomness\<close>

text \<open>
  The program is a single TypeScript module (App.tsx). Its \<^verbatim>\<open>number\<close> values are
  modelled as reals. In the halo score, whose value turns on the rounding of quotients,
  every operation is rounded to the nearest double, as the arithmetic of the source does
  (section "Double-precision arithmetic"); the other functions are modelled with exact
  sums, products and quotients. \<^verbatim>\<open>Math.round\<close> rounds to the nearest integer and a
  tie towards plus infinity, which is the floor of \<open>x + 1/2\<close>; it is exact on every
  double.
\<close>

definition Math_round :: "real \<Rightarrow> int" where
  "Math_round x = \<lfloor>x + 1 / 2\<rfloor>"

text \<open>
  Text is a list of bytes: the UTF-8 encoding of the source's literals, most of which are
  Arabic. \<^verbatim>\<open>String(n)\<close> and \<^verbatim>\<open>${n}\<close> of a non-negative whole number (below
  \<open>10^21\<close>, where JavaScript changes to the exponent form) are its decimal digits.
\<close>

fun String_nat :: "nat \<Rightarrow> string" where
  "String_nat n =
     (if n < 10 then [char_of (48 + n)]
      else String_nat (n div 10) @ [char_of (48 + n mod 10)])"

declare String_nat.simps [simp del]

text \<open>The number that a string of decimal digits denotes, read from the left.\<close>

definition decimal :: "string \<Rightarrow> nat" where
  "decimal s = foldl (\<lambda>a c. 10 * a + (of_char c - 48)) 0 s"

text \<open>\<^verbatim>\<open>Array.prototype.join\<close> on a list of strings.\<close>

fun join :: "string \<Rightarrow> string list \<Rightarrow> string" where
  "join sep [] = []"
| "join sep [x] = x"
| "join sep (x # y # ys) = x @ sep @ join sep (y # ys)"

text \<open>
  \<^verbatim>\<open>Math.random()\<close> returns a number in \<open>[0, 1)\<close> and advances a hidden generator.
  The generator is an arbitrary infinite sequence of reals, passed explicitly; a call takes
  the fractional part of its head, so every value of \<open>[0, 1)\<close> can come out and nothing
  else, and returns the rest of the sequence.
\<close>

type_synonym rng = "nat \<Rightarrow> real"

definition Math_random :: "rng \<Rightarrow> real \<times> rng" where
  "Math_random g = (frac (g 0), \<lambda>n. g (Suc n))"

section \<open>Types\<close>

text \<open>
  The goal \<^verbatim>\<open>'cut'\<close> is \<open>cut_goal\<close>, since \<open>cut\<close> is a constant of HOL. The fields
  \<^verbatim>\<open>start\<close> and \<^verbatim>\<open>end\<close> of the sleep window are \<open>sleep_start\<close> and \<open>sleep_end\<close>.
  An optional field is an \<open>option\<close>.
\<close>

datatype Gender = male | female

datatype Goal = cut_goal | bulk | maintain

datatype ActivityLevel = sedentary | light | moderate | active | athlete

record DietaryPref =
  halal :: "bool option"
  vegan :: "bool option"
  vegetarian :: "bool option"
  glutenFree :: "bool option"
  lactoseFree :: "bool option"

record MealTimes =
  breakfast :: string
  lunch :: string
  dinner :: string

record SleepTime =
  sleep_start :: string
  sleep_end :: string

record OnboardingData =
  gender :: Gender
  age :: real
  height :: real
  weight :: real
  goal :: Goal
  activity :: ActivityLevel
  mealTimes :: MealTimes
  sleepTime :: SleepTime
  diet :: DietaryPref

text \<open>
  In \<open>Meal\<close>, the source's field \<^verbatim>\<open>id\<close> is \<open>meal_id\<close> and its field \<^verbatim>\<open>steps\<close> is
  \<open>prep_steps\<close> (the first is a constant of HOL, the second a field of \<open>DayData\<close>).
  \<open>timeMins\<close> is always a whole number in this program, and is a \<open>nat\<close>.
\<close>

record Meal =
  meal_id :: string
  title :: string
  kcal :: real
  protein :: real
  carbs :: real
  fat :: real
  timeMins :: nat
  ingredients :: "string list"
  prep_steps :: "string list"
  tags :: "string list option"

record DayData =
  date :: string
  sleepPct :: real
  sittingHrs :: real
  steps :: real
  stepsGoal :: real
  waterMl :: real
  waterTarget :: real
  kcalConsumed :: real
  kcalTarget :: real
  meals :: "Meal list"
  snacks :: "Meal list"
  prayerDone :: bool
  workoutDone :: bool

section \<open>Utils and calculators\<close>

definition clamp :: "real \<Rightarrow> real \<Rightarrow> real \<Rightarrow> real" where
  "clamp n lo hi = max lo (min hi n)"

definition calcBMR :: "Gender \<Rightarrow> real \<Rightarrow> real \<Rightarrow> real \<Rightarrow> real" where
  "calcBMR g weightKg heightCm ageYears =
     (if g = male
      then 10 * weightKg + 6.25 * heightCm - 5 * ageYears + 5
      else 10 * weightKg + 6.25 * heightCm - 5 * ageYears - 161)"

fun activityMultiplier :: "ActivityLevel \<Rightarrow> real" where
  "activityMultiplier sedentary = 1.2"
| "activityMultiplier light = 1.375"
| "activityMultiplier moderate = 1.55"
| "activityMultiplier active = 1.725"
| "activityMultiplier athlete = 1.9"

definition tdeeFrom :: "OnboardingData \<Rightarrow> int" where
  "tdeeFrom onb =
     (let bmr = calcBMR (gender onb) (weight onb) (height onb) (age onb);
          tdee = bmr * activityMultiplier (activity onb)
      in if goal onb = cut_goal then Math_round (tdee - 400)
         else if goal onb = bulk then Math_round (tdee + 300)
         else Math_round tdee)"

text \<open>
  \<open>formatTime\<close> on a whole number of minutes. The two unit labels are single Arabic
  letters.
\<close>

definition unit_min :: string where
  \<comment> \<open>the letter dal (U+062F), short for "minute"\<close>
  "unit_min =
     [CHR 0xD8, CHR 0xAF]"

definition unit_hr :: string where
  \<comment> \<open>the letter seen (U+0633), short for "hour"\<close>
  "unit_hr =
     [CHR 0xD8, CHR 0xB3]"

definition formatTime :: "nat \<Rightarrow> string" where
  "formatTime mins =
     (if mins < 60 then String_nat mins @ '' '' @ unit_min
      else let h = mins div 60; m = mins mod 60
           in String_nat h @ '' '' @ unit_hr @ '' '' @ String_nat m @ '' '' @ unit_min)"

text \<open>
  \<open>fresh_id\<close> is the source's \<^verbatim>\<open>id()\<close>: \<^verbatim>\<open>Math.random().toString(36).slice(2)\<close>. The
  platform's rendering of a number in radix 36 is a parameter, \<open>toString36\<close>.
\<close>

definition fresh_id :: "(real \<Rightarrow> string) \<Rightarrow> rng \<Rightarrow> string \<times> rng" where
  "fresh_id toString36 g = (let (r, g1) = Math_random g in (drop 2 (toString36 r), g1))"

text \<open>
  \<open>pick_n\<close> is the source's \<^verbatim>\<open>pick\<close> (\<open>pick\<close> is a constant of HOL). It draws
  without replacement: while fewer than \<open>n\<close> elements are out and the copy is not
  empty, it removes the element at index \<open>floor (random * length)\<close> from the copy and
  appends it to the output. The loop is a recursion on the number of elements still to
  draw.
\<close>

fun pick_n :: "'a list \<Rightarrow> nat \<Rightarrow> rng \<Rightarrow> 'a list \<times> rng" where
  "pick_n copy 0 g = ([], g)"
| "pick_n copy (Suc n) g =
     (if copy = [] then ([], g)
      else let (r, g1) = Math_random g;
               i = nat \<lfloor>r * real (length copy)\<rfloor>;
               (out, g2) = pick_n (take i copy @ drop (Suc i) copy) n g1
           in (copy ! i # out, g2))"

section \<open>Meals\<close>

definition pantry_proteins :: "string list" where
  \<comment> \<open>chicken breast, eggs, tuna, chickpeas, lentils, Greek yogurt\<close>
  "pantry_proteins =
    [[CHR 0xD8, CHR 0xB5, CHR 0xD8, CHR 0xAF, CHR 0xD8, CHR 0xB1, CHR 0x20, CHR 0xD8, CHR 0xAF,
      CHR 0xD8, CHR 0xAC, CHR 0xD8, CHR 0xA7, CHR 0xD8, CHR 0xAC],
     [CHR 0xD8, CHR 0xA8, CHR 0xD9, CHR 0x8A, CHR 0xD8, CHR 0xB6],
     [CHR 0xD8, CHR 0xAA, CHR 0xD9, CHR 0x88, CHR 0xD9, CHR 0x86, CHR 0xD8, CHR 0xA9],
     [CHR 0xD8, CHR 0xAD, CHR 0xD9, CHR 0x85, CHR 0xD8, CHR 0xB5],
     [CHR 0xD8, CHR 0xB9, CHR 0xD8, CHR 0xAF, CHR 0xD8, CHR 0xB3],
     [CHR 0xD9, CHR 0x84, CHR 0xD8, CHR 0xA8, CHR 0xD9, CHR 0x86, CHR 0x20, CHR 0xD9, CHR 0x8A,
      CHR 0xD9, CHR 0x88, CHR 0xD9, CHR 0x86, CHR 0xD8, CHR 0xA7, CHR 0xD9, CHR 0x86, CHR 0xD9,
      CHR 0x8A]]"

definition pantry_carbs :: "string list" where
  \<comment> \<open>basmati rice, oats, brown Arabic bread, potato, quinoa, dates\<close>
  "pantry_carbs =
    [[CHR 0xD8, CHR 0xB1, CHR 0xD8, CHR 0xB2, CHR 0x20, CHR 0xD8, CHR 0xA8, CHR 0xD8, CHR 0xB3,
      CHR 0xD9, CHR 0x85, CHR 0xD8, CHR 0xAA, CHR 0xD9, CHR 0x8A],
     [CHR 0xD8, CHR 0xB4, CHR 0xD9, CHR 0x88, CHR 0xD9, CHR 0x81, CHR 0xD8, CHR 0xA7, CHR 0xD9,
      CHR 0x86],
     [CHR 0xD8, CHR 0xAE, CHR 0xD8, CHR 0xA8, CHR 0xD8, CHR 0xB2, CHR 0x20, CHR 0xD8, CHR 0xB9,
      CHR 0xD8, CHR 0xB1, CHR 0xD8, CHR 0xA8, CHR 0xD9, CHR 0x8A, CHR 0x20, CHR 0xD8, CHR 0xA3,
      CHR 0xD8, CHR 0xB3, CHR 0xD9, CHR 0x85, CHR 0xD8, CHR 0xB1],
     [CHR 0xD8, CHR 0xA8, CHR 0xD8, CHR 0xB7, CHR 0xD8, CHR 0xA7, CHR 0xD8, CHR 0xB7, CHR 0xD8,
      CHR 0xA7],
     [CHR 0xD9, CHR 0x83, CHR 0xD9, CHR 0x8A, CHR 0xD9, CHR 0x86, CHR 0xD9, CHR 0x88, CHR 0xD8,
      CHR 0xA7],
     [CHR 0xD8, CHR 0xAA, CHR 0xD9, CHR 0x85, CHR 0xD8, CHR 0xB1]]"

definition pantry_fats :: "string list" where
  \<comment> \<open>avocado, olive oil, nuts, tahini\<close>
  "pantry_fats =
    [[CHR 0xD8, CHR 0xA3, CHR 0xD9, CHR 0x81, CHR 0xD9, CHR 0x88, CHR 0xD9, CHR 0x83, CHR 0xD8,
      CHR 0xA7, CHR 0xD8, CHR 0xAF, CHR 0xD9, CHR 0x88],
     [CHR 0xD8, CHR 0xB2, CHR 0xD9, CHR 0x8A, CHR 0xD8, CHR 0xAA, CHR 0x20, CHR 0xD8, CHR 0xB2,
      CHR 0xD9, CHR 0x8A, CHR 0xD8, CHR 0xAA, CHR 0xD9, CHR 0x88, CHR 0xD9, CHR 0x86],
     [CHR 0xD9, CHR 0x85, CHR 0xD9, CHR 0x83, CHR 0xD8, CHR 0xB3, CHR 0xD8, CHR 0xB1, CHR 0xD8,
      CHR 0xA7, CHR 0xD8, CHR 0xAA],
     [CHR 0xD8, CHR 0xB7, CHR 0xD8, CHR 0xAD, CHR 0xD9, CHR 0x8A, CHR 0xD9, CHR 0x86, CHR 0xD8,
      CHR 0xA9]]"

definition pantry_veggies :: "string list" where
  \<comment> \<open>lettuce, spinach, tomato, cucumber, pepper, broccoli, carrot\<close>
  "pantry_veggies =
    [[CHR 0xD8, CHR 0xAE, CHR 0xD8, CHR 0xB3],
     [CHR 0xD8, CHR 0xB3, CHR 0xD8, CHR 0xA8, CHR 0xD8, CHR 0xA7, CHR 0xD9, CHR 0x86, CHR 0xD8,
      CHR 0xAE],
     [CHR 0xD8, CHR 0xB7, CHR 0xD9, CHR 0x85, CHR 0xD8, CHR 0xA7, CHR 0xD8, CHR 0xB7, CHR 0xD8,
      CHR 0xA9],
     [CHR 0xD8, CHR 0xAE, CHR 0xD9, CHR 0x8A, CHR 0xD8, CHR 0xA7, CHR 0xD8, CHR 0xB1],
     [CHR 0xD9, CHR 0x81, CHR 0xD9, CHR 0x84, CHR 0xD9, CHR 0x81, CHR 0xD9, CHR 0x84],
     [CHR 0xD8, CHR 0xA8, CHR 0xD8, CHR 0xB1, CHR 0xD9, CHR 0x88, CHR 0xD9, CHR 0x83, CHR 0xD9,
      CHR 0x84, CHR 0xD9, CHR 0x8A],
     [CHR 0xD8, CHR 0xAC, CHR 0xD8, CHR 0xB2, CHR 0xD8, CHR 0xB1]]"

definition step_prepare :: string where
  \<comment> \<open>"Prepare the ingredients: " (with the trailing space)\<close>
  "step_prepare =
     [CHR 0xD8, CHR 0xAD, CHR 0xD8, CHR 0xB6, CHR 0xD9, CHR 0x91, CHR 0xD8, CHR 0xB1, CHR 0x20,
      CHR 0xD8, CHR 0xA7, CHR 0xD9, CHR 0x84, CHR 0xD9, CHR 0x85, CHR 0xD9, CHR 0x83, CHR 0xD9,
      CHR 0x88, CHR 0xD9, CHR 0x91, CHR 0xD9, CHR 0x86, CHR 0xD8, CHR 0xA7, CHR 0xD8, CHR 0xAA,
      CHR 0x3A, CHR 0x20]"

definition join_sep :: string where
  \<comment> \<open>the Arabic comma (U+060C) and a space\<close>
  "join_sep =
     [CHR 0xD8, CHR 0x8C, CHR 0x20]"

definition step_cook :: string where
  \<comment> \<open>"Cook the protein on medium heat for 8-10 min"\<close>
  "step_cook =
     [CHR 0xD8, CHR 0xA7, CHR 0xD8, CHR 0xB7, CHR 0xD8, CHR 0xA8, CHR 0xD8, CHR 0xAE, CHR 0x20,
      CHR 0xD8, CHR 0xA7, CHR 0xD9, CHR 0x84, CHR 0xD8, CHR 0xA8, CHR 0xD8, CHR 0xB1, CHR 0xD9,
      CHR 0x88, CHR 0xD8, CHR 0xAA, CHR 0xD9, CHR 0x8A, CHR 0xD9, CHR 0x86, CHR 0x20, CHR 0xD8,
      CHR 0xB9, CHR 0xD9, CHR 0x84, CHR 0xD9, CHR 0x89, CHR 0x20, CHR 0xD9, CHR 0x86, CHR 0xD8,
      CHR 0xA7, CHR 0xD8, CHR 0xB1, CHR 0x20, CHR 0xD9, CHR 0x85, CHR 0xD8, CHR 0xAA, CHR 0xD9,
      CHR 0x88, CHR 0xD8, CHR 0xB3, CHR 0xD8, CHR 0xB7, CHR 0xD8, CHR 0xA9, CHR 0x20, CHR 0x38,
      CHR 0xE2, CHR 0x80, CHR 0x93, CHR 0x31, CHR 0x30, CHR 0x20, CHR 0xD8, CHR 0xAF]"

definition step_carb :: string where
  \<comment> \<open>"Boil or heat the carb as instructed"\<close>
  "step_carb =
     [CHR 0xD8, CHR 0xA7, CHR 0xD8, CHR 0xB3, CHR 0xD9, CHR 0x84, CHR 0xD9, CHR 0x82, CHR 0x2F,
      CHR 0xD8, CHR 0xB3, CHR 0xD8, CHR 0xAE, CHR 0xD9, CHR 0x91, CHR 0xD9, CHR 0x86, CHR 0x20,
      CHR 0xD8, CHR 0xA7, CHR 0xD9, CHR 0x84, CHR 0xD9, CHR 0x83, CHR 0xD8, CHR 0xA7, CHR 0xD8,
      CHR 0xB1, CHR 0xD8, CHR 0xA8, CHR 0x20, CHR 0xD8, CHR 0xAD, CHR 0xD8, CHR 0xB3, CHR 0xD8,
      CHR 0xA8, CHR 0x20, CHR 0xD8, CHR 0xA7, CHR 0xD9, CHR 0x84, CHR 0xD8, CHR 0xAA, CHR 0xD8,
      CHR 0xB9, CHR 0xD9, CHR 0x84, CHR 0xD9, CHR 0x8A, CHR 0xD9, CHR 0x85, CHR 0xD8, CHR 0xA7,
      CHR 0xD8, CHR 0xAA]"

definition step_plate :: string where
  \<comment> \<open>"Arrange the plate and add the vegetables and the sauce"\<close>
  "step_plate =
     [CHR 0xD8, CHR 0xB1, CHR 0xD8, CHR 0xAA, CHR 0xD9, CHR 0x91, CHR 0xD8, CHR 0xA8, CHR 0x20,
      CHR 0xD8, CHR 0xA7, CHR 0xD9, CHR 0x84, CHR 0xD8, CHR 0xB5, CHR 0xD8, CHR 0xAD, CHR 0xD9,
      CHR 0x86, CHR 0x20, CHR 0xD9, CHR 0x88, CHR 0xD8, CHR 0xA3, CHR 0xD8, CHR 0xB6, CHR 0xD9,
      CHR 0x81, CHR 0x20, CHR 0xD8, CHR 0xA7, CHR 0xD9, CHR 0x84, CHR 0xD8, CHR 0xAE, CHR 0xD8,
      CHR 0xB6, CHR 0xD8, CHR 0xA7, CHR 0xD8, CHR 0xB1, CHR 0x20, CHR 0xD9, CHR 0x88, CHR 0xD8,
      CHR 0xA7, CHR 0xD9, CHR 0x84, CHR 0xD8, CHR 0xB5, CHR 0xD9, CHR 0x84, CHR 0xD8, CHR 0xB5,
      CHR 0xD8, CHR 0xA9]"

definition title_breakfast :: string where
  \<comment> \<open>"Balanced breakfast"\<close>
  "title_breakfast =
     [CHR 0xD9, CHR 0x81, CHR 0xD8, CHR 0xB7, CHR 0xD9, CHR 0x88, CHR 0xD8, CHR 0xB1, CHR 0x20,
      CHR 0xD9, CHR 0x85, CHR 0xD8, CHR 0xAA, CHR 0xD9, CHR 0x88, CHR 0xD8, CHR 0xA7, CHR 0xD8,
      CHR 0xB2, CHR 0xD9, CHR 0x86]"

definition title_lunch :: string where
  \<comment> \<open>"Satisfying lunch"\<close>
  "title_lunch =
     [CHR 0xD8, CHR 0xBA, CHR 0xD8, CHR 0xAF, CHR 0xD8, CHR 0xA7, CHR 0xD8, CHR 0xA1, CHR 0x20,
      CHR 0xD9, CHR 0x85, CHR 0xD9, CHR 0x8F, CHR 0xD8, CHR 0xB1, CHR 0xD8, CHR 0xB6, CHR 0xD9,
      CHR 0x8A]"

definition title_dinner :: string where
  \<comment> \<open>"Light dinner"\<close>
  "title_dinner =
     [CHR 0xD8, CHR 0xB9, CHR 0xD8, CHR 0xB4, CHR 0xD8, CHR 0xA7, CHR 0xD8, CHR 0xA1, CHR 0x20,
      CHR 0xD8, CHR 0xAE, CHR 0xD9, CHR 0x81, CHR 0xD9, CHR 0x8A, CHR 0xD9, CHR 0x81]"

definition title_snack1 :: string where
  \<comment> \<open>"Snack 1"\<close>
  "title_snack1 =
     [CHR 0xD8, CHR 0xB3, CHR 0xD9, CHR 0x86, CHR 0xD8, CHR 0xA7, CHR 0xD9, CHR 0x83, CHR 0x20,
      CHR 0x31]"

definition title_snack2 :: string where
  \<comment> \<open>"Snack 2"\<close>
  "title_snack2 =
     [CHR 0xD8, CHR 0xB3, CHR 0xD9, CHR 0x86, CHR 0xD8, CHR 0xA7, CHR 0xD9, CHR 0x83, CHR 0x20,
      CHR 0x32]"

text \<open>
  \<open>buildMeal\<close> draws one protein, one carb, one fat and two vegetables, then an id and a
  preparation time, in the order in which the source calls \<^verbatim>\<open>Math.random\<close>. The pantry
  lists are not empty, so the first element of each single draw exists (lemma
  \<open>pick_n_length\<close> below).
\<close>

definition buildMeal ::
  "(real \<Rightarrow> string) \<Rightarrow> string \<Rightarrow> real \<Rightarrow> real \<Rightarrow> real \<Rightarrow> real \<Rightarrow> rng \<Rightarrow> Meal \<times> rng" where
  "buildMeal toString36 ttl k p c f g0 =
     (let (ps, g1) = pick_n pantry_proteins 1 g0; prot = hd ps;
          (cs, g2) = pick_n pantry_carbs 1 g1; carb = hd cs;
          (fs, g3) = pick_n pantry_fats 1 g2; fatv = hd fs;
          (vegs, g4) = pick_n pantry_veggies 2 g3;
          (i, g5) = fresh_id toString36 g4;
          (r, g6) = Math_random g5
      in (\<lparr>meal_id = i, title = ttl, kcal = k, protein = p, carbs = c, fat = f,
           timeMins = 15 + nat \<lfloor>r * 15\<rfloor>,
           ingredients = [prot, carb, fatv] @ vegs,
           prep_steps =
             [step_prepare @ prot @ '' + '' @ carb @ '' + '' @ fatv @ '' + ''
                @ join join_sep vegs,
              step_cook, step_carb, step_plate],
           tags = Some [''halal'']\<rparr>, g6))"

text \<open>The result pairs the list \<^verbatim>\<open>meals\<close> with the list \<^verbatim>\<open>snacks\<close>.\<close>

definition generateMealsForDay ::
  "(real \<Rightarrow> string) \<Rightarrow> real \<Rightarrow> Goal \<Rightarrow> rng \<Rightarrow> (Meal list \<times> Meal list) \<times> rng" where
  "generateMealsForDay toString36 tdee gl g0 =
     (let dayKcal = tdee;
          mainKcal = Math_round (dayKcal * 0.75);
          snackKcal = dayKcal - of_int mainKcal;
          mealK = Math_round (of_int mainKcal / 3);
          snackK = Math_round (snackKcal / 2);
          (m1, g1) = buildMeal toString36 title_breakfast (of_int mealK) 30 50 15 g0;
          (m2, g2) = buildMeal toString36 title_lunch (of_int mealK) 35 55 18 g1;
          (m3, g3) = buildMeal toString36 title_dinner (of_int mealK) 28 45 12 g2;
          (s1, g4) = buildMeal toString36 title_snack1 (of_int snackK) 12 15 8 g3;
          (s2, g5) = buildMeal toString36 title_snack2 (of_int snackK) 10 18 6 g4
      in (([m1, m2, m3], [s1, s2]), g5))"

section \<open>Double-precision arithmetic\<close>

text \<open>
  The halo score divides whole numbers such as 1000 by 3000, and its result depends on
  how the quotients, products and sums are rounded. In it every arithmetic operation is
  followed by \<open>fl\<close>, the rounding of a real to the nearest IEEE 754 double, a tie
  going to the double with the even significand. A double has 53 significant bits: for
  \<open>2^e \<le> |x| < 2^(e+1)\<close> the doubles next to \<open>x\<close> are the multiples of
  \<open>2^(e - 52)\<close>, and below \<open>2^(-1022)\<close> they are the multiples of \<open>2^(-1074)\<close>.
  Overflow is not modelled: the only operation of the score that can overflow is the
  multiplication by 100, and its result is clamped to \<open>[0, 100]\<close> at once, which gives
  100 for plus infinity as for any number above 100.
\<close>

text \<open>The number of binary digits of a natural number.\<close>

fun bit_width :: "nat \<Rightarrow> nat" where
  "bit_width n = (if n = 0 then 0 else Suc (bit_width (n div 2)))"

declare bit_width.simps [simp del]

text \<open>
  For a positive \<open>x\<close>, the \<open>e\<close> with \<open>2^e \<le> x < 2^(e+1)\<close>: from the digits of the
  integer part when \<open>x \<ge> 1\<close>, and from those of the reciprocal, rounded up, otherwise.
\<close>

definition exponent :: "real \<Rightarrow> int" where
  "exponent x =
     (if 1 \<le> x then int (bit_width (nat \<lfloor>x\<rfloor>)) - 1
      else - int (bit_width (nat \<lceil>1 / x\<rceil> - 1)))"

text \<open>Rounding to the nearest integer, a tie to the even one.\<close>

definition rne :: "real \<Rightarrow> int" where
  "rne y =
     (let f = \<lfloor>y\<rfloor>; r = y - of_int f
      in if r < 1 / 2 then f
         else if 1 / 2 < r then f + 1
         else if even f then f else f + 1)"

text \<open>The distance between the doubles next to \<open>x\<close>.\<close>

definition ulp :: "real \<Rightarrow> real" where
  "ulp x = 2 powi (max (exponent \<bar>x\<bar>) (- 1022) - 52)"

definition fl :: "real \<Rightarrow> real" where
  "fl x = (if x = 0 then 0 else of_int (rne (x / ulp x)) * ulp x)"

section \<open>Nudges and halo\<close>








text \<open>
  \<open>haloScore\<close> in double precision: the quotient and the product of each percentage,
  the four additions from left to right and the division by 5 are each rounded by \<open>fl\<close>.
  \<^verbatim>\<open>Math.max\<close>, \<^verbatim>\<open>Math.min\<close> and \<^verbatim>\<open>Math.round\<close> are exact.
\<close>

definition haloScore :: "DayData \<Rightarrow> int" where
  "haloScore d =
     (let water = clamp (fl (fl (waterMl d / max 1 (waterTarget d)) * 100)) 0 100;
          sleep = clamp (sleepPct d) 0 100;
          stp = clamp (fl (fl (steps d / max 1 (stepsGoal d)) * 100)) 0 100;
          faith = (if prayerDone d then 100 else 30);
          sport = (if workoutDone d then 100 else 40)
      in Math_round (fl (fl (fl (fl (fl (water + sleep) + stp) + faith) + sport) / 5)))"

section \<open>The application state\<close>

text \<open>
  The part of the root component that the day's completion and the plan's regeneration
  touch: the React state \<^verbatim>\<open>day\<close> and \<^verbatim>\<open>streak\<close>, and the key-value store behind
  \<^verbatim>\<open>KVStorage\<close> (\<open>kv\<close>), a map from keys to stored text.
\<close>

record AppState =
  day :: "DayData option"
  streak :: nat
  kv :: "string \<rightharpoonup> string"

definition K_day :: "string \<Rightarrow> string" where
  "K_day d = ''aiqo_day_'' @ d"

definition K_streak :: string where
  "K_streak = ''aiqo_streak_v2''"

text \<open>
  The truth value JavaScript gives to the result of \<^verbatim>\<open>getItem\<close>: \<^verbatim>\<open>null\<close> and the
  empty string are false, every other string is true.
\<close>

definition truthy :: "string option \<Rightarrow> bool" where
  "truthy v = (case v of None \<Rightarrow> False | Some s \<Rightarrow> s \<noteq> [])"

definition alert_done_title :: string where
  \<comment> \<open>fire emoji, "Record the achievement"\<close>
  "alert_done_title =
     [CHR 0xF0, CHR 0x9F, CHR 0x94, CHR 0xA5, CHR 0x20, CHR 0xD8, CHR 0xB3, CHR 0xD8, CHR 0xAC,
      CHR 0xD9, CHR 0x91, CHR 0xD9, CHR 0x84, CHR 0x20, CHR 0xD8, CHR 0xA7, CHR 0xD9, CHR 0x84,
      CHR 0xD8, CHR 0xA5, CHR 0xD9, CHR 0x86, CHR 0xD8, CHR 0xAC, CHR 0xD8, CHR 0xA7, CHR 0xD8,
      CHR 0xB2]"

definition alert_done_body :: string where
  \<comment> \<open>"The day is complete, light points in your pocket!"\<close>
  "alert_done_body =
     [CHR 0xD8, CHR 0xA7, CHR 0xD9, CHR 0x84, CHR 0xD9, CHR 0x8A, CHR 0xD9, CHR 0x88, CHR 0xD9,
      CHR 0x85, CHR 0x20, CHR 0xD9, CHR 0x85, CHR 0xD9, CHR 0x83, CHR 0xD8, CHR 0xAA, CHR 0xD9,
      CHR 0x85, CHR 0xD9, CHR 0x84, CHR 0x20, CHR 0xE2, CHR 0x80, CHR 0x94, CHR 0x20, CHR 0xD9,
      CHR 0x86, CHR 0xD9, CHR 0x82, CHR 0xD8, CHR 0xA7, CHR 0xD8, CHR 0xB7, CHR 0x20, CHR 0xD9,
      CHR 0x86, CHR 0xD9, CHR 0x88, CHR 0xD8, CHR 0xB1, CHR 0x20, CHR 0xD8, CHR 0xA8, CHR 0xD8,
      CHR 0xAC, CHR 0xD9, CHR 0x8A, CHR 0xD8, CHR 0xA8, CHR 0xD9, CHR 0x83, CHR 0x21]"

definition alert_more_title :: string where
  \<comment> \<open>"We carry on tomorrow"\<close>
  "alert_more_title =
     [CHR 0xD9, CHR 0x84, CHR 0xD8, CHR 0xB3, CHR 0xD9, CHR 0x91, CHR 0xD9, CHR 0x87, CHR 0x20,
      CHR 0xD9, CHR 0x86, CHR 0xD9, CHR 0x83, CHR 0xD9, CHR 0x85, CHR 0xD9, CHR 0x84, CHR 0x20,
      CHR 0xD8, CHR 0xA8, CHR 0xD8, CHR 0xA7, CHR 0xDA, CHR 0x86, CHR 0xD8, CHR 0xB1]"

definition alert_more_body :: string where
  \<comment> \<open>"Drink water, take a small step and we close the day", sparkles emoji\<close>
  "alert_more_body =
     [CHR 0xD8, CHR 0xA7, CHR 0xD8, CHR 0xB4, CHR 0xD8, CHR 0xB1, CHR 0xD8, CHR 0xA8, CHR 0x20,
      CHR 0xD9, CHR 0x85, CHR 0xD9, CHR 0x8A, CHR 0x20, CHR 0xD9, CHR 0x88, CHR 0xD8, CHR 0xAE,
      CHR 0xD8, CHR 0xB7, CHR 0xD9, CHR 0x88, CHR 0xD8, CHR 0xA9, CHR 0x20, CHR 0xD8, CHR 0xB5,
      CHR 0xD8, CHR 0xBA, CHR 0xD9, CHR 0x8A, CHR 0xD8, CHR 0xB1, CHR 0xD8, CHR 0xA9, CHR 0x20,
      CHR 0xD9, CHR 0x88, CHR 0xD9, CHR 0x86, CHR 0xD9, CHR 0x82, CHR 0xD9, CHR 0x81, CHR 0xD9,
      CHR 0x84, CHR 0x20, CHR 0xD8, CHR 0xA7, CHR 0xD9, CHR 0x84, CHR 0xD9, CHR 0x8A, CHR 0xD9,
      CHR 0x88, CHR 0xD9, CHR 0x85, CHR 0x20, CHR 0xE2, CHR 0x9C, CHR 0xA8]"

text \<open>The completion test of \<^verbatim>\<open>completeDay\<close>, its local constant \<^verbatim>\<open>ok\<close>.\<close>

definition ok :: "DayData \<Rightarrow> bool" where
  "ok d = (waterMl d \<ge> waterTarget d * 0.9 \<and> steps d \<ge> stepsGoal d * 0.9)"

text \<open>
  \<open>completeDay\<close> takes the date of the previous day (the source reads the clock) and
  returns the new state with the alert shown, a title and a body; no alert when there is
  no day.
\<close>

definition completeDay :: "string \<Rightarrow> AppState \<Rightarrow> AppState \<times> (string \<times> string) option" where
  "completeDay yesterday app =
     (case day app of
        None \<Rightarrow> (app, None)
      | Some d \<Rightarrow>
          (let prevKey = K_day yesterday;
               hadPrev = kv app prevKey
           in if ok d
              then (let nxt = (if truthy hadPrev then streak app + 1 else 1)
                    in (app\<lparr>streak := nxt, kv := (kv app)(K_streak \<mapsto> String_nat nxt)\<rparr>,
                        Some (alert_done_title, alert_done_body)))
              else (app, Some (alert_more_title, alert_more_body))))"

text \<open>
  \<open>onRegenerate\<close> is the updater that both screens pass to \<^verbatim>\<open>setDay\<close>: the day is
  spread first and the generated plan after it.
\<close>

definition onRegenerate ::
  "(real \<Rightarrow> string) \<Rightarrow> OnboardingData \<Rightarrow> DayData option \<Rightarrow> rng \<Rightarrow> DayData option \<times> rng" where
  "onRegenerate toString36 onb dopt g =
     (case dopt of
        None \<Rightarrow> (None, g)
      | Some d \<Rightarrow>
          (let ((ms, ss), g1) =
                 generateMealsForDay toString36 (of_int (tdeeFrom onb)) (goal onb) g
           in (Some (d\<lparr>meals := ms, snacks := ss\<rparr>), g1)))"

section \<open>The profile and the days of the source's own checks\<close>


text \<open>
  The day \<^verbatim>\<open>base\<close> of the development-time assertions, for a given date.
\<close>

definition base :: "string \<Rightarrow> DayData" where
  "base today =
     \<lparr>date = today, sleepPct = 50, sittingHrs = 10, steps = 1000, stepsGoal = 8000,
      waterMl = 0, waterTarget = 2000, kcalConsumed = 0, kcalTarget = 2000, meals = [],
      snacks = [], prayerDone = False, workoutDone = False\<rparr>"

text \<open>
  \<open>probe\<close> varies the fields of \<open>base\<close> that the nudge reads; its targets are
  those of \<open>base\<close>: 2000 ml of water, 8000 steps and 2000 kcal.
\<close>

definition probe :: "real \<Rightarrow> real \<Rightarrow> real \<Rightarrow> bool \<Rightarrow> real \<Rightarrow> DayData" where
  "probe w s k p h =
     (base ''2025-01-01'')\<lparr>waterMl := w, steps := s, kcalConsumed := k, prayerDone := p,
       sittingHrs := h\<rparr>"

text \<open>
  Two days whose water target lies strictly between 0 and 1 ml. These are the days on
  which the guard \<^verbatim>\<open>Math.max(1, waterTarget)\<close> changes the quotient.
\<close>

definition small_target_day :: "string \<Rightarrow> DayData" where
  "small_target_day today = (base today)\<lparr>waterMl := 1 / 4, waterTarget := 1 / 2\<rparr>"

text \<open>
  A day of whole numbers on which the rounding of the quotients decides the score: a
  third of the water target and a twenty-fourth of the step goal.
\<close>

definition thirds_day :: DayData where
  "thirds_day =
     (base ''2025-01-01'')\<lparr>sleepPct := 95, steps := 250, stepsGoal := 6000, waterMl := 1000,
       waterTarget := 3000\<rparr>"


section \<open>The specification's wording\<close>

text \<open>
  The two functions of the recommendation engine as the specification words them, for
  comparison with \<open>haloScore\<close> and \<open>pickNudge\<close>. In \<open>wellnessScore_spec\<close> a target
  of 0 counts as 1 and every other target is the denominator as it stands, and the mean
  is the exact one. \<open>wellnessScore_doubles\<close> is the same formula with every operation
  rounded to the nearest double. In \<open>selectNudge_spec\<close> the first test is on
  \<open>waterMl / waterTarget\<close> itself; the specification does not say what the quotient is
  at a target of 0, and the comparison below is made only for targets that are not 0.
\<close>

definition wellnessScore_spec :: "DayData \<Rightarrow> int" where
  "wellnessScore_spec d =
     (let water = clamp (waterMl d / (if waterTarget d = 0 then 1 else waterTarget d) * 100) 0 100;
          sleep = clamp (sleepPct d) 0 100;
          stp = clamp (steps d / (if stepsGoal d = 0 then 1 else stepsGoal d) * 100) 0 100;
          faith = (if prayerDone d then 100 else 30);
          sport = (if workoutDone d then 100 else 40)
      in Math_round ((water + sleep + stp + faith + sport) / 5))"

definition wellnessScore_doubles :: "DayData \<Rightarrow> int" where
  "wellnessScore_doubles d =
     (let water =
            clamp (fl (fl (waterMl d / (if waterTarget d = 0 then 1 else waterTarget d)) * 100))
              0 100;
          sleep = clamp (sleepPct d) 0 100;
          stp =
            clamp (fl (fl (steps d / (if stepsGoal d = 0 then 1 else stepsGoal d)) * 100))
              0 100;
          faith = (if prayerDone d then 100 else 30);
          sport = (if workoutDone d then 100 else 40)
      in Math_round (fl (fl (fl (fl (fl (water + sleep) + stp) + faith) + sport) / 5)))"


section \<open>Rounding\<close>

lemma Math_round_round: "Math_round x = round x"
  by (simp add: Math_round_def round_def)




lemma Math_round_mono: "x \<le> y \<Longrightarrow> Math_round x \<le> Math_round y"
  unfolding Math_round_def by (rule floor_mono) simp

lemma Math_round_third: "Math_round (of_int a / 3) = (2 * a + 3) div 6"
proof -
  have "of_int a / 3 + 1 / 2 = (of_int (2 * a + 3) :: real) / of_int 6"
    by simp
  then show ?thesis
    unfolding Math_round_def by (simp only: floor_divide_of_int_eq)
qed

lemma Math_round_half: "Math_round (of_int b / 2) = (b + 1) div 2"
proof -
  have "of_int b / 2 + 1 / 2 = (of_int (b + 1) :: real) / of_int 2"
    by simp
  then show ?thesis
    unfolding Math_round_def by (simp only: floor_divide_of_int_eq)
qed

lemma mainKcal_int: "Math_round (of_int n * 0.75) = (3 * n + 2) div 4"
proof -
  have "of_int n * 0.75 + 1 / 2 = (of_int (3 * n + 2) :: real) / of_int 4"
    by simp
  then show ?thesis
    unfolding Math_round_def by (simp only: floor_divide_of_int_eq)
qed

section \<open>Rounding to the nearest double\<close>

lemma bit_width_pos: "0 < n \<Longrightarrow> 0 < bit_width n"
  by (subst bit_width.simps) simp

lemma bit_width_bounds:
  "0 < n \<Longrightarrow> 2 ^ (bit_width n - 1) \<le> n \<and> n < 2 ^ bit_width n"
proof (induction n rule: bit_width.induct)
  case (1 n)
  show ?case
  proof (cases "n div 2 = 0")
    case True
    with "1.prems" have "n = 1" by presburger
    then show ?thesis by (simp add: bit_width.simps)
  next
    case False
    then have pos: "0 < n div 2" by simp
    with "1.IH" "1.prems" have ih: "2 ^ (bit_width (n div 2) - 1) \<le> n div 2"
      "n div 2 < 2 ^ bit_width (n div 2)" by simp_all
    have w: "bit_width n = Suc (bit_width (n div 2))"
      using "1.prems" by (subst bit_width.simps) simp
    have wpos: "0 < bit_width (n div 2)"
      using pos by (rule bit_width_pos)
    then have p: "(2::nat) ^ bit_width (n div 2) = 2 * 2 ^ (bit_width (n div 2) - 1)"
      by (cases "bit_width (n div 2)") simp_all
    from ih(1) have "2 * 2 ^ (bit_width (n div 2) - 1) \<le> n" by linarith
    moreover from ih(2) have "n < 2 * 2 ^ bit_width (n div 2)" by linarith
    ultimately show ?thesis using w p by simp
  qed
qed

lemma exponent_ge_1:
  assumes "1 \<le> x"
  shows "2 powi exponent x \<le> x" and "x < 2 powi (exponent x + 1)"
proof -
  let ?n = "nat \<lfloor>x\<rfloor>"
  let ?w = "bit_width ?n"
  from assms have n: "0 < ?n" by simp
  then have w: "0 < ?w" by (rule bit_width_pos)
  have e: "exponent x = int (?w - 1)" "exponent x + 1 = int ?w"
    using assms w by (simp_all add: exponent_def)
  have "2 ^ (?w - 1) \<le> ?n \<and> ?n < 2 ^ ?w"
    using n by (rule bit_width_bounds)
  then have b: "2 ^ (?w - 1) \<le> ?n" "Suc ?n \<le> 2 ^ ?w"
    by (blast intro: Suc_leI)+
  from b(1) have "real (2 ^ (?w - 1)) \<le> real ?n"
    by (simp only: of_nat_le_iff)
  also have "\<dots> \<le> x" using assms by simp
  finally show "2 powi exponent x \<le> x" by (simp add: e)
  have "x < real ?n + 1" using assms by linarith
  also have "\<dots> = real (Suc ?n)" by simp
  also have "\<dots> \<le> real (2 ^ ?w)"
    using b(2) by (simp only: of_nat_le_iff)
  finally have "x < 2 ^ ?w" by simp
  then show "x < 2 powi (exponent x + 1)" by (simp only: e(2) power_int_of_nat)
qed

lemma exponent_lt_1:
  assumes "0 < x" "x < 1"
  shows "2 powi exponent x \<le> x" and "x < 2 powi (exponent x + 1)"
proof -
  let ?k = "nat \<lceil>1 / x\<rceil>"
  let ?j = "bit_width (?k - 1)"
  from assms have y: "1 < 1 / x" by simp
  then have c: "2 \<le> \<lceil>1 / x\<rceil>" by linarith
  then have k: "0 < ?k - 1" by simp
  then have j: "0 < ?j" by (rule bit_width_pos)
  have e: "exponent x = - int ?j"
    using assms by (simp add: exponent_def)
  have b: "2 ^ (?j - 1) \<le> ?k - 1" "?k - 1 < 2 ^ ?j"
    using bit_width_bounds [OF k] by simp_all
  have "1 / x \<le> real_of_int \<lceil>1 / x\<rceil>" by linarith
  also have "\<dots> = real ?k"
  proof -
    from c have "0 \<le> \<lceil>1 / x\<rceil>" by linarith
    then have "int ?k = \<lceil>1 / x\<rceil>" by (rule nat_0_le)
    then have "real_of_int (int ?k) = real_of_int \<lceil>1 / x\<rceil>" by (rule arg_cong)
    then show ?thesis by (simp only: of_int_of_nat_eq)
  qed
  also have "\<dots> \<le> real (2 ^ ?j)"
  proof -
    from b(2) have "?k \<le> 2 ^ ?j" by linarith
    then show ?thesis by (simp only: of_nat_le_iff)
  qed
  finally have "1 / x \<le> 2 ^ ?j" by simp
  then have "1 \<le> 2 ^ ?j * x" using assms(1) by (simp add: field_simps)
  then have "1 / 2 ^ ?j \<le> x" by (simp add: field_simps)
  then show "2 powi exponent x \<le> x"
    by (simp add: e power_int_minus field_simps)
  have "real (2 ^ (?j - 1)) \<le> real (?k - 1)"
    using b(1) by (simp only: of_nat_le_iff)
  also have "\<dots> = real ?k - 1"
  proof -
    from c have "1 \<le> ?k" by linarith
    then show ?thesis by (simp only: of_nat_diff of_nat_1)
  qed
  also have "\<dots> = real_of_int \<lceil>1 / x\<rceil> - 1"
  proof -
    from c have "0 \<le> \<lceil>1 / x\<rceil>" by linarith
    then have "int ?k = \<lceil>1 / x\<rceil>" by (rule nat_0_le)
    then have "real_of_int (int ?k) = real_of_int \<lceil>1 / x\<rceil>" by (rule arg_cong)
    then show ?thesis by (simp only: of_int_of_nat_eq)
  qed
  also have "\<dots> < 1 / x" by linarith
  finally have "2 ^ (?j - 1) < 1 / x" by simp
  then have "2 ^ (?j - 1) * x < 1" using assms(1) by (simp add: field_simps)
  then have u: "x < 1 / 2 ^ (?j - 1)" by (simp add: field_simps)
  have ee: "exponent x + 1 = - int (?j - 1)" using j e by simp
  have "(2::real) powi (exponent x + 1) = 1 / 2 ^ (?j - 1)"
    unfolding ee by (simp add: power_int_minus inverse_eq_divide)
  with u show "x < 2 powi (exponent x + 1)" by simp
qed

lemma exponent_bounds:
  assumes "0 < x"
  shows "2 powi exponent x \<le> x" and "x < 2 powi (exponent x + 1)"
  using assms exponent_ge_1 [of x] exponent_lt_1 [of x] by (cases "1 \<le> x"; simp)+

lemma exponent_mono:
  assumes "0 < x" "x \<le> y"
  shows "exponent x \<le> exponent y"
proof (rule ccontr)
  assume "\<not> exponent x \<le> exponent y"
  then have "exponent y + 1 \<le> exponent x" by simp
  then have "(2::real) powi (exponent y + 1) \<le> 2 powi exponent x"
    by (intro power_int_increasing) simp_all
  also have "\<dots> \<le> x" using assms(1) by (rule exponent_bounds)
  also have "\<dots> \<le> y" by (rule assms(2))
  also have "\<dots> < 2 powi (exponent y + 1)"
    using assms by (intro exponent_bounds) simp
  finally show False by simp
qed

lemma rne_of_int: "rne (of_int k) = k"
  by (simp add: rne_def)

lemma rne_bounds: "\<lfloor>y\<rfloor> \<le> rne y" "rne y \<le> \<lfloor>y\<rfloor> + 1"
  by (simp_all add: rne_def Let_def)

lemma rne_mono:
  assumes "x \<le> y"
  shows "rne x \<le> rne y"
proof (cases "\<lfloor>x\<rfloor> = \<lfloor>y\<rfloor>")
  case True
  with assms have "x - of_int \<lfloor>x\<rfloor> \<le> y - of_int \<lfloor>y\<rfloor>" by simp
  with True show ?thesis
    by (auto simp: rne_def Let_def)
next
  case False
  with assms have "\<lfloor>x\<rfloor> + 1 \<le> \<lfloor>y\<rfloor>"
    using floor_mono [OF assms] by linarith
  with rne_bounds(2) [of x] rne_bounds(1) [of y] show ?thesis by linarith
qed

lemma rne_minus: "rne (- y) = - rne y"
proof (cases "y \<in> \<int>")
  case True
  then obtain k where "y = of_int k" by (auto elim: Ints_cases)
  then show ?thesis
    using rne_of_int [of "- k"] rne_of_int [of k] by simp
next
  case False
  then have ne: "y \<noteq> of_int \<lfloor>y\<rfloor>"
    by (metis Ints_of_int)
  then have f: "\<lfloor>- y\<rfloor> = - \<lfloor>y\<rfloor> - 1"
    by (simp add: floor_minus ceiling_altdef)
  show ?thesis
    unfolding rne_def Let_def f by (auto simp: algebra_simps)
qed

lemma rne_error: "\<bar>of_int (rne y) - y\<bar> \<le> 1 / 2"
  unfolding rne_def Let_def by (auto simp: abs_le_iff)

lemma ulp_pos: "0 < ulp x"
  by (simp add: ulp_def)

lemma ulp_minus: "ulp (- x) = ulp x"
  by (simp add: ulp_def)

lemma fl_minus: "fl (- x) = - fl x"
  by (simp add: fl_def ulp_minus rne_minus)

lemma fl_error: "\<bar>fl x - x\<bar> \<le> ulp x / 2"
proof (cases "x = 0")
  case True
  then show ?thesis using ulp_pos [of 0] by (simp add: fl_def)
next
  case False
  have "fl x - x = (of_int (rne (x / ulp x)) - x / ulp x) * ulp x"
    using False ulp_pos [of x] by (simp add: fl_def left_diff_distrib)
  then have "\<bar>fl x - x\<bar> = \<bar>of_int (rne (x / ulp x)) - x / ulp x\<bar> * ulp x"
    using ulp_pos [of x] by (simp add: abs_mult)
  also have "\<dots> \<le> 1 / 2 * ulp x"
    using ulp_pos [of x] by (intro mult_right_mono rne_error) simp
  finally show ?thesis by simp
qed

lemma fl_upper:
  assumes "0 < x"
  shows "fl x \<le> 2 powi (max (exponent x) (- 1022) + 1)"
proof -
  let ?e = "max (exponent x) (- 1022)"
  have u: "ulp x = 2 powi (?e - 52)" using assms by (simp add: ulp_def)
  have "x < 2 powi (exponent x + 1)" using assms by (rule exponent_bounds)
  also have "\<dots> \<le> 2 powi (?e + 1)" by (intro power_int_increasing) simp_all
  finally have "x / ulp x \<le> 2 powi (?e + 1) / 2 powi (?e - 52)"
    unfolding u by (intro divide_right_mono) simp_all
  also have "\<dots> = 2 powi 53"
    by (simp flip: power_int_diff)
  also have "\<dots> = of_int (2 ^ 53)" by simp
  finally have "rne (x / ulp x) \<le> rne (of_int (2 ^ 53))" by (rule rne_mono)
  then have "of_int (rne (x / ulp x)) \<le> (2::real) powi 53"
    unfolding rne_of_int by (simp only: of_int_le_iff [symmetric, where 'a = real]) simp
  then have "fl x \<le> 2 powi 53 * 2 powi (?e - 52)"
    using assms unfolding fl_def u by (simp add: mult_right_mono)
  also have "\<dots> = 2 powi (?e + 1)"
  proof -
    have s: "?e + 1 = 53 + (?e - 52)" by simp
    show ?thesis by (subst s, rule power_int_add [symmetric]) simp
  qed
  finally show ?thesis .
qed

lemma fl_lower:
  assumes "0 < x" "- 1022 \<le> exponent x"
  shows "2 powi exponent x \<le> fl x"
proof -
  let ?e = "exponent x"
  have u: "ulp x = 2 powi (?e - 52)" using assms by (simp add: ulp_def max_def)
  have "2 powi ?e \<le> x" using assms(1) by (rule exponent_bounds)
  then have "2 powi ?e / 2 powi (?e - 52) \<le> x / ulp x"
    unfolding u by (intro divide_right_mono) simp_all
  moreover have "(2::real) powi ?e / 2 powi (?e - 52) = 2 powi 52"
    by (simp flip: power_int_diff)
  moreover have "(2::real) powi 52 = of_int (2 ^ 52)" by simp
  ultimately have "of_int (2 ^ 52) \<le> x / ulp x" by simp
  then have "rne (of_int (2 ^ 52)) \<le> rne (x / ulp x)" by (rule rne_mono)
  then have "(2::real) powi 52 \<le> of_int (rne (x / ulp x))"
    unfolding rne_of_int by (simp only: of_int_le_iff [symmetric, where 'a = real]) simp
  then have "2 powi 52 * 2 powi (?e - 52) \<le> fl x"
    using assms unfolding fl_def u by (simp add: mult_right_mono)
  moreover have "(2::real) powi 52 * 2 powi (?e - 52) = 2 powi (52 + (?e - 52))"
    by (rule power_int_add [symmetric]) simp
  moreover have "(2::real) powi (52 + (?e - 52)) = 2 powi ?e"
    by simp
  ultimately show ?thesis by simp
qed

lemma fl_mono_pos:
  assumes "0 < x" "x \<le> y"
  shows "fl x \<le> fl y"
proof -
  let ?ex = "max (exponent x) (- 1022)"
  let ?ey = "max (exponent y) (- 1022)"
  from assms have y: "0 < y" by simp
  have le: "?ex \<le> ?ey" using exponent_mono [OF assms] by simp
  show ?thesis
  proof (cases "?ex = ?ey")
    case True
    then have u: "ulp x = ulp y" using assms y by (simp add: ulp_def)
    have "x / ulp y \<le> y / ulp y"
      using assms(2) ulp_pos [of y] by (intro divide_right_mono) simp_all
    then have "rne (x / ulp y) \<le> rne (y / ulp y)" by (rule rne_mono)
    then have "of_int (rne (x / ulp y)) * ulp y \<le> of_int (rne (y / ulp y)) * ulp y"
      using ulp_pos [of y] by (intro mult_right_mono) simp_all
    then show ?thesis using assms y by (simp add: fl_def u)
  next
    case False
    with le have lt: "?ex + 1 \<le> ?ey" by simp
    then have ey: "?ey = exponent y" "- 1022 \<le> exponent y" by (simp_all add: max_def split: if_splits)
    have "fl x \<le> 2 powi (?ex + 1)" using assms(1) by (rule fl_upper)
    also have "\<dots> \<le> 2 powi ?ey" using lt by (intro power_int_increasing) simp_all
    also have "\<dots> = 2 powi exponent y" by (simp only: ey(1))
    also have "\<dots> \<le> fl y" using y ey(2) by (rule fl_lower)
    finally show ?thesis .
  qed
qed

lemma fl_nonneg: "0 \<le> x \<Longrightarrow> 0 \<le> fl x"
proof -
  assume "0 \<le> x"
  then have "0 \<le> x / ulp x" using ulp_pos [of x] by simp
  then have "rne 0 \<le> rne (x / ulp x)" by (rule rne_mono)
  then have "0 \<le> rne (x / ulp x)" using rne_of_int [of 0] by simp
  then show ?thesis using ulp_pos [of x] by (simp add: fl_def)
qed

lemma fl_mono:
  assumes "x \<le> y"
  shows "fl x \<le> fl y"
proof -
  consider "0 < x" | "x \<le> 0" "0 \<le> y" | "y < 0" by linarith
  then show ?thesis
  proof cases
    case 1
    then show ?thesis using assms by (rule fl_mono_pos)
  next
    case 2
    then have "0 \<le> fl (- x)" "0 \<le> fl y" by (simp_all add: fl_nonneg)
    then show ?thesis by (simp add: fl_minus)
  next
    case 3
    then have "fl (- y) \<le> fl (- x)" using assms by (intro fl_mono_pos) simp_all
    then show ?thesis by (simp add: fl_minus)
  qed
qed

lemma fl_of_nat:
  assumes "n < 2 ^ 53"
  shows "fl (real n) = real n"
proof (cases "n = 0")
  case True
  then show ?thesis by (simp add: fl_def)
next
  case False
  then have n: "0 < n" by simp
  let ?w = "bit_width n"
  have w: "0 < ?w" using n by (rule bit_width_pos)
  have "2 ^ (?w - 1) \<le> n" using bit_width_bounds [OF n] by simp
  with assms have "(2::nat) ^ (?w - 1) < 2 ^ 53" by linarith
  then have "?w - 1 < 53" by (rule power_less_imp_less_exp [rotated]) simp
  with w have w53: "?w \<le> 53" by linarith
  have e: "exponent \<bar>real n\<bar> = int ?w - 1"
    using n by (simp add: exponent_def)
  have "max (exponent \<bar>real n\<bar>) (- 1022) - 52 = - int (53 - ?w)"
    using w w53 unfolding e by linarith
  then have "ulp (real n) = 2 powi (- int (53 - ?w))"
    unfolding ulp_def by (rule arg_cong)
  then have u: "ulp (real n) = 1 / 2 ^ (53 - ?w)"
    by (simp only: power_int_minus power_int_of_nat inverse_eq_divide)
  have "real n / ulp (real n) = of_int (int (n * 2 ^ (53 - ?w)))"
    unfolding u by simp
  then have "rne (real n / ulp (real n)) = int (n * 2 ^ (53 - ?w))"
    by (simp only: rne_of_int)
  then show ?thesis
    using False unfolding fl_def u by simp
qed

lemma fl_numerals:
  "fl 0 = 0" "fl 1 = 1" "fl 74 = 74" "fl 100 = 100" "fl 200 = 200" "fl 300 = 300"
  "fl 330 = 330" "fl 370 = 370" "fl 400 = 400" "fl 500 = 500"
  using fl_of_nat [of 0] fl_of_nat [of 1] fl_of_nat [of 74] fl_of_nat [of 100]
    fl_of_nat [of 200] fl_of_nat [of 300] fl_of_nat [of 330] fl_of_nat [of 370]
    fl_of_nat [of 400] fl_of_nat [of 500]
  by simp_all

lemmas fl_eval = fl_def ulp_def exponent_def rne_def bit_width.simps Let_def clamp_def
  Math_round_def

lemma fl_examples:
  "fl (1 / 3) = 6004799503160661 / 2 ^ 54"
  "fl (1 / 10) = 7205759403792794 / 2 ^ 56"
  "fl 9007199254740993 = 9007199254740992"
  "fl 9007199254740995 = 9007199254740996"
  by (simp_all add: fl_eval)


lemma ulp_subnormal:
  assumes "0 < x" "x < 2 powi (- 1022)"
  shows "ulp x = 2 powi (- 1074)"
proof -
  have "exponent x < - 1022"
  proof (rule ccontr)
    assume "\<not> exponent x < - 1022"
    then have "(2::real) powi (- 1022) \<le> 2 powi exponent x"
      by (intro power_int_increasing) simp_all
    also have "\<dots> \<le> x" using assms(1) by (rule exponent_bounds)
    finally show False using assms(2) by simp
  qed
  then have "max (exponent \<bar>x\<bar>) (- 1022) - 52 = - 1074"
    using assms(1) by simp
  then show ?thesis
    unfolding ulp_def by (rule arg_cong)
qed

lemma fl_subnormal:
  "fl (3 / 2 * 2 powi (- 1074)) = 2 * 2 powi (- 1074)"
  "fl (1 / 2 * 2 powi (- 1074)) = 0"
  "fl (13 / 10 * 2 powi (- 1074)) = 2 powi (- 1074)"
proof -
  let ?u = "(2::real) powi (- 1074)"
  have u: "0 < ?u" by simp
  have lt: "?u < 2 powi (- 1022) / 2"
  proof -
    have "?u < 2 powi (- 1023)" by (intro power_int_strict_increasing) simp_all
    also have "\<dots> = 2 powi (- 1022) / 2"
      using power_int_diff [of "2::real" "- 1022" 1] by simp
    finally show ?thesis .
  qed
  have a: "ulp (3 / 2 * ?u) = ?u"
    using u lt by (intro ulp_subnormal) simp_all
  have b: "ulp (1 / 2 * ?u) = ?u"
    using u lt by (intro ulp_subnormal) simp_all
  have c: "ulp (13 / 10 * ?u) = ?u"
    using u lt by (intro ulp_subnormal) simp_all
  have r: "rne (3 / 2) = 2" "rne (1 / 2) = 0" "rne (13 / 10) = 1"
    by (simp_all add: rne_def)
  have "3 / 2 * ?u / ?u = 3 / 2" "1 / 2 * ?u / ?u = 1 / 2" "13 / 10 * ?u / ?u = 13 / 10"
    using u by simp_all
  then show "fl (3 / 2 * ?u) = 2 * ?u" "fl (1 / 2 * ?u) = 0" "fl (13 / 10 * ?u) = ?u"
    using u unfolding fl_def a b c by (simp_all add: r)
qed

section \<open>Daily energy target\<close>


section \<open>The halo score\<close>

lemma clamp_bounds: "0 \<le> clamp x 0 100 \<and> clamp x 0 100 \<le> 100"
  by (simp add: clamp_def)

lemma clamp_mono: "x \<le> y \<Longrightarrow> clamp x lo hi \<le> clamp y lo hi"
  unfolding clamp_def by (intro max.mono min.mono order_refl)

lemma clamp_full: "100 \<le> x \<Longrightarrow> clamp x 0 100 = 100"
  by (simp add: clamp_def)

text \<open>
  The percentage of a target, as the source computes it: a rounded quotient, a rounded
  product, then the clamp.
\<close>

lemma percent_mono:
  fixes a b t :: real
  assumes "a \<le> b"
  shows "clamp (fl (fl (a / max 1 t) * 100)) 0 100 \<le> clamp (fl (fl (b / max 1 t) * 100)) 0 100"
proof -
  have "0 \<le> max 1 t" by simp
  with assms have "a / max 1 t \<le> b / max 1 t"
    by (rule divide_right_mono)
  then have "fl (a / max 1 t) \<le> fl (b / max 1 t)"
    by (rule fl_mono)
  then have "fl (a / max 1 t) * 100 \<le> fl (b / max 1 t) * 100"
    by (rule mult_right_mono) simp
  then have "fl (fl (a / max 1 t) * 100) \<le> fl (fl (b / max 1 t) * 100)"
    by (rule fl_mono)
  then show ?thesis
    by (rule clamp_mono)
qed

lemma percent_full:
  fixes a t :: real
  assumes "max 1 t \<le> a"
  shows "clamp (fl (fl (a / max 1 t) * 100)) 0 100 = 100"
proof -
  have "0 < max 1 t" by simp
  then have "1 \<le> a / max 1 t"
    using assms by (simp only: le_divide_eq_1_pos)
  then have "fl 1 \<le> fl (a / max 1 t)"
    by (rule fl_mono)
  then have "1 * 100 \<le> fl (a / max 1 t) * 100"
    unfolding fl_numerals by (rule mult_right_mono) simp
  then have "fl 100 \<le> fl (fl (a / max 1 t) * 100)"
    by (intro fl_mono) simp
  then show ?thesis
    unfolding fl_numerals by (rule clamp_full)
qed

text \<open>The five rounded additions and the rounded division by 5.\<close>

lemma mean_mono:
  fixes a b c e f a' b' c' e' f' :: real
  assumes "a \<le> a'" "b \<le> b'" "c \<le> c'" "e \<le> e'" "f \<le> f'"
  shows "fl (fl (fl (fl (fl (a + b) + c) + e) + f) / 5)
      \<le> fl (fl (fl (fl (fl (a' + b') + c') + e') + f') / 5)"
proof -
  have 1: "fl (a + b) \<le> fl (a' + b')"
    using add_mono [OF assms(1,2)] by (rule fl_mono)
  have 2: "fl (fl (a + b) + c) \<le> fl (fl (a' + b') + c')"
    using add_mono [OF 1 assms(3)] by (rule fl_mono)
  have 3: "fl (fl (fl (a + b) + c) + e) \<le> fl (fl (fl (a' + b') + c') + e')"
    using add_mono [OF 2 assms(4)] by (rule fl_mono)
  have 4: "fl (fl (fl (fl (a + b) + c) + e) + f) \<le> fl (fl (fl (fl (a' + b') + c') + e') + f')"
    using add_mono [OF 3 assms(5)] by (rule fl_mono)
  have "fl (fl (fl (fl (a + b) + c) + e) + f) / 5 \<le> fl (fl (fl (fl (a' + b') + c') + e') + f') / 5"
    using 4 by (rule divide_right_mono) simp
  then show ?thesis
    by (rule fl_mono)
qed

lemma mean_of_numerals:
  "fl (fl (fl (fl (fl (0 + 0) + 0) + 0) + 0) / 5) = 0"
  "fl (fl (fl (fl (fl (100 + 100) + 100) + 100) + 100) / 5) = 100"
  "fl (fl (fl (fl (fl (100 + 100) + 100) + 30) + 40) / 5) = 74"
  by (simp_all add: fl_numerals)

lemma mean_bounds:
  fixes a b c e f :: real
  assumes "0 \<le> a \<and> a \<le> 100" "0 \<le> b \<and> b \<le> 100" "0 \<le> c \<and> c \<le> 100"
    "0 \<le> e \<and> e \<le> 100" "0 \<le> f \<and> f \<le> 100"
  shows "0 \<le> fl (fl (fl (fl (fl (a + b) + c) + e) + f) / 5)"
    and "fl (fl (fl (fl (fl (a + b) + c) + e) + f) / 5) \<le> 100"
proof -
  have "fl (fl (fl (fl (fl (0 + 0) + 0) + 0) + 0) / 5)
      \<le> fl (fl (fl (fl (fl (a + b) + c) + e) + f) / 5)"
    using assms by (intro mean_mono) simp_all
  then show "0 \<le> fl (fl (fl (fl (fl (a + b) + c) + e) + f) / 5)"
    by (simp only: mean_of_numerals)
  have "fl (fl (fl (fl (fl (a + b) + c) + e) + f) / 5)
      \<le> fl (fl (fl (fl (fl (100 + 100) + 100) + 100) + 100) / 5)"
    using assms by (intro mean_mono) simp_all
  then show "fl (fl (fl (fl (fl (a + b) + c) + e) + f) / 5) \<le> 100"
    by (simp only: mean_of_numerals)
qed

lemma haloScore_unfold:
  "haloScore d =
     Math_round
       (fl (fl (fl (fl (fl
          (clamp (fl (fl (waterMl d / max 1 (waterTarget d)) * 100)) 0 100
           + clamp (sleepPct d) 0 100)
           + clamp (fl (fl (steps d / max 1 (stepsGoal d)) * 100)) 0 100)
           + (if prayerDone d then 100 else 30))
           + (if workoutDone d then 100 else 40)) / 5))"
  by (simp add: haloScore_def Let_def)

lemma haloScore_range: "0 \<le> haloScore d \<and> haloScore d \<le> 100"
proof -
  let ?w = "clamp (fl (fl (waterMl d / max 1 (waterTarget d)) * 100)) 0 100"
  let ?s = "clamp (sleepPct d) 0 100"
  let ?t = "clamp (fl (fl (steps d / max 1 (stepsGoal d)) * 100)) 0 100"
  let ?f = "if prayerDone d then 100 else 30 :: real"
  let ?p = "if workoutDone d then 100 else 40 :: real"
  let ?m = "fl (fl (fl (fl (fl (?w + ?s) + ?t) + ?f) + ?p) / 5)"
  have w: "0 \<le> ?w \<and> ?w \<le> 100" by (rule clamp_bounds)
  have s: "0 \<le> ?s \<and> ?s \<le> 100" by (rule clamp_bounds)
  have t: "0 \<le> ?t \<and> ?t \<le> 100" by (rule clamp_bounds)
  have f: "0 \<le> ?f \<and> ?f \<le> 100" by simp
  have p: "0 \<le> ?p \<and> ?p \<le> 100" by simp
  have lo: "0 \<le> ?m" using w s t f p by (rule mean_bounds)
  have hi: "?m \<le> 100" using w s t f p by (rule mean_bounds)
  have h: "haloScore d = Math_round ?m" by (rule haloScore_unfold)
  have "Math_round 0 \<le> Math_round ?m" using lo by (rule Math_round_mono)
  moreover have "Math_round ?m \<le> Math_round 100" using hi by (rule Math_round_mono)
  moreover have "Math_round 0 = 0" "Math_round 100 = 100" by (simp_all add: Math_round_def)
  ultimately show ?thesis using h by simp
qed

lemma haloScore_eq_doubles:
  assumes "waterTarget d = 0 \<or> 1 \<le> waterTarget d" "stepsGoal d = 0 \<or> 1 \<le> stepsGoal d"
  shows "haloScore d = wellnessScore_doubles d"
proof -
  have a: "max 1 (waterTarget d) = (if waterTarget d = 0 then 1 else waterTarget d)"
    using assms(1) by auto
  have b: "max 1 (stepsGoal d) = (if stepsGoal d = 0 then 1 else stepsGoal d)"
    using assms(2) by auto
  show ?thesis unfolding haloScore_def wellnessScore_doubles_def a b ..
qed

text \<open>
  The score of a concrete day is computed in two steps: the fields are read off the day,
  then the closed arithmetic term is evaluated by unfolding \<open>fl\<close>.
\<close>

lemma haloScore_at:
  assumes "waterMl d = a" "waterTarget d = t" "sleepPct d = q" "steps d = s"
    "stepsGoal d = g" "prayerDone d = pd" "workoutDone d = wd"
  shows "haloScore d =
     Math_round
       (fl (fl (fl (fl (fl
          (clamp (fl (fl (a / max 1 t) * 100)) 0 100 + clamp q 0 100)
           + clamp (fl (fl (s / max 1 g) * 100)) 0 100)
           + (if pd then 100 else 30))
           + (if wd then 100 else 40)) / 5))"
  using assms by (simp add: haloScore_def Let_def)

lemma wellnessScore_doubles_at:
  assumes "waterMl d = a" "waterTarget d = t" "sleepPct d = q" "steps d = s"
    "stepsGoal d = g" "prayerDone d = pd" "workoutDone d = wd"
  shows "wellnessScore_doubles d =
     Math_round
       (fl (fl (fl (fl (fl
          (clamp (fl (fl (a / (if t = 0 then 1 else t)) * 100)) 0 100 + clamp q 0 100)
           + clamp (fl (fl (s / (if g = 0 then 1 else g)) * 100)) 0 100)
           + (if pd then 100 else 30))
           + (if wd then 100 else 40)) / 5))"
  using assms by (simp add: wellnessScore_doubles_def Let_def)

lemma haloScore_thirds_day: "haloScore thirds_day = 40"
proof -
  have "haloScore thirds_day =
     Math_round
       (fl (fl (fl (fl (fl
          (clamp (fl (fl (1000 / max 1 3000) * 100)) 0 100 + clamp 95 0 100)
           + clamp (fl (fl (250 / max 1 6000) * 100)) 0 100)
           + (if False then 100 else 30))
           + (if False then 100 else 40)) / 5))"
    by (rule haloScore_at) (simp_all add: thirds_day_def base_def)
  also have "\<dots> = 40"
    by (simp add: fl_eval)
  finally show ?thesis .
qed

lemma haloScore_small_target_day: "haloScore (small_target_day today) = 32"
proof -
  have "haloScore (small_target_day today) =
     Math_round
       (fl (fl (fl (fl (fl
          (clamp (fl (fl ((1 / 4) / max 1 (1 / 2)) * 100)) 0 100 + clamp 50 0 100)
           + clamp (fl (fl (1000 / max 1 8000) * 100)) 0 100)
           + (if False then 100 else 30))
           + (if False then 100 else 40)) / 5))"
    by (rule haloScore_at) (simp_all add: small_target_day_def base_def)
  also have "\<dots> = 32"
    by (simp add: fl_eval)
  finally show ?thesis .
qed

lemma wellnessScore_doubles_small_target_day:
  "wellnessScore_doubles (small_target_day today) = 37"
proof -
  have "wellnessScore_doubles (small_target_day today) =
     Math_round
       (fl (fl (fl (fl (fl
          (clamp (fl (fl ((1 / 4) / (if (1 / 2 :: real) = 0 then 1 else 1 / 2)) * 100)) 0 100
             + clamp 50 0 100)
           + clamp (fl (fl (1000 / (if (8000 :: real) = 0 then 1 else 8000)) * 100)) 0 100)
           + (if False then 100 else 30))
           + (if False then 100 else 40)) / 5))"
    by (rule wellnessScore_doubles_at) (simp_all add: small_target_day_def base_def)
  also have "\<dots> = 37"
    by (simp add: fl_eval)
  finally show ?thesis .
qed

lemma wellnessScore_doubles_probe:
  "wellnessScore_doubles (probe 500 1000 0 False 10) = 32"
proof -
  have "wellnessScore_doubles (probe 500 1000 0 False 10) =
     Math_round
       (fl (fl (fl (fl (fl
          (clamp (fl (fl (500 / (if (2000 :: real) = 0 then 1 else 2000)) * 100)) 0 100
             + clamp 50 0 100)
           + clamp (fl (fl (1000 / (if (8000 :: real) = 0 then 1 else 8000)) * 100)) 0 100)
           + (if False then 100 else 30))
           + (if False then 100 else 40)) / 5))"
    by (rule wellnessScore_doubles_at) (simp_all add: probe_def base_def)
  also have "\<dots> = 32"
    by (simp add: fl_eval)
  finally show ?thesis .
qed

text \<open>
  C2, as stated, fails in two ways. On a day whose water target is half a millilitre,
  with a quarter of a millilitre drunk, the source divides by \<open>max 1 (1/2) = 1\<close> and
  scores the water at 25, the stated formula divides by the target and scores it at 50,
  and the rounded means are 32 and 37, in exact and in double arithmetic alike. On the
  whole-number day \<open>thirds_day\<close> (1000 of 3000 ml, 250 of 6000 steps, sleep 95, no flag)
  the exact mean is 40.5 and rounds to 41, while the doubles of the source sum to just
  under 202.5 and the source returns 40.
\<close>

theorem haloScore_small_target:
  "haloScore (small_target_day ''2025-01-01'') = 32
   \<and> wellnessScore_spec (small_target_day ''2025-01-01'') = 37
   \<and> wellnessScore_doubles (small_target_day ''2025-01-01'') = 37
   \<and> haloScore (small_target_day ''2025-01-01'')
       \<noteq> wellnessScore_spec (small_target_day ''2025-01-01'')
   \<and> haloScore thirds_day = 40
   \<and> wellnessScore_spec thirds_day = 41
   \<and> haloScore thirds_day \<noteq> wellnessScore_spec thirds_day"
proof -
  have a: "haloScore (small_target_day ''2025-01-01'') = 32"
    by (rule haloScore_small_target_day)
  have b: "wellnessScore_spec (small_target_day ''2025-01-01'') = 37"
    by (simp add: wellnessScore_spec_def small_target_day_def base_def clamp_def
        Math_round_def Let_def)
  have c: "wellnessScore_doubles (small_target_day ''2025-01-01'') = 37"
    by (rule wellnessScore_doubles_small_target_day)
  have e: "wellnessScore_spec thirds_day = 41"
    by (simp add: wellnessScore_spec_def thirds_day_def base_def clamp_def Math_round_def
        Let_def)
  from a b c e haloScore_thirds_day show ?thesis
    by simp
qed

text \<open>
  C2, amended. For every day, \<open>haloScore\<close> is \<^verbatim>\<open>Math.round\<close> of the mean of five
  sub-scores, computed as the source computes it, in double precision: every quotient,
  product and sum is rounded to the nearest double (\<open>fl\<close>). Water is
  \<open>waterMl / max 1 waterTarget * 100\<close> clamped to \<open>[0, 100]\<close>, sleep is \<open>sleepPct\<close>
  clamped to \<open>[0, 100]\<close>, steps is \<open>steps / max 1 stepsGoal * 100\<close> clamped to
  \<open>[0, 100]\<close>, faith is 100 if the prayer is done and 30 otherwise, sport is 100 if the
  workout is done and 40 otherwise; the five are added from left to right and the sum is
  divided by 5. So every target below 1, and not 0 alone, counts as 1 in the denominator.
  Every clamped value lies in \<open>[0, 100]\<close>, and the score is a whole number from 0 to
  100. When both targets are 0 or at least 1, the score is the specification's formula,
  a target of 0 counting as 1, evaluated in doubles. On \<open>thirds_day\<close> it is 40. The
  rounding \<open>fl\<close> is within half a unit in the last place: one third goes to
  \<open>6004799503160661 / 2^54\<close>, a tie goes to the even significand (\<open>2^53 + 1\<close> to
  \<open>2^53\<close>, \<open>2^53 + 3\<close> to \<open>2^53 + 4\<close>), and below \<open>2^(-1022)\<close> the doubles are
  the multiples of \<open>2^(-1074)\<close> (1.5 such units go to 2 units, 1.3 to 1).
\<close>

theorem haloScore_mean_of_five:
  "haloScore d =
     Math_round
       (fl (fl (fl (fl (fl
          (clamp (fl (fl (waterMl d / max 1 (waterTarget d)) * 100)) 0 100
           + clamp (sleepPct d) 0 100)
           + clamp (fl (fl (steps d / max 1 (stepsGoal d)) * 100)) 0 100)
           + (if prayerDone d then 100 else 30))
           + (if workoutDone d then 100 else 40)) / 5))
   \<and> 0 \<le> clamp x 0 100 \<and> clamp x 0 100 \<le> 100
   \<and> 0 \<le> haloScore d \<and> haloScore d \<le> 100
   \<and> ((waterTarget d = 0 \<or> 1 \<le> waterTarget d) \<and> (stepsGoal d = 0 \<or> 1 \<le> stepsGoal d)
        \<longrightarrow> haloScore d = wellnessScore_doubles d)
   \<and> haloScore thirds_day = 40
   \<and> \<bar>fl y - y\<bar> \<le> ulp y / 2
   \<and> fl (1 / 3) = 6004799503160661 / 2 ^ 54
   \<and> fl 9007199254740993 = 9007199254740992
   \<and> fl 9007199254740995 = 9007199254740996
   \<and> fl (3 / 2 * 2 powi (- 1074)) = 2 * 2 powi (- 1074)
   \<and> fl (13 / 10 * 2 powi (- 1074)) = 2 powi (- 1074)"
proof -
  have a: "(waterTarget d = 0 \<or> 1 \<le> waterTarget d) \<and> (stepsGoal d = 0 \<or> 1 \<le> stepsGoal d)
        \<longrightarrow> haloScore d = wellnessScore_doubles d"
    using haloScore_eq_doubles [of d] by blast
  show ?thesis
    by (intro conjI haloScore_unfold conjunct1 [OF clamp_bounds] conjunct2 [OF clamp_bounds]
        conjunct1 [OF haloScore_range] conjunct2 [OF haloScore_range] a haloScore_thirds_day
        fl_error fl_examples(1,3,4) fl_subnormal(1,3))
qed

text \<open>
  The amended C2 on the day \<open>probe 500 1000 0 False 10\<close>, whose targets are 2000 and
  8000: the score is the specification's formula in doubles, 32.
\<close>

theorem haloScore_mean_of_five_witness:
  "(waterTarget (probe 500 1000 0 False 10) = 0 \<or> 1 \<le> waterTarget (probe 500 1000 0 False 10))
   \<and> (stepsGoal (probe 500 1000 0 False 10) = 0 \<or> 1 \<le> stepsGoal (probe 500 1000 0 False 10))
   \<and> haloScore (probe 500 1000 0 False 10) = wellnessScore_doubles (probe 500 1000 0 False 10)
   \<and> wellnessScore_doubles (probe 500 1000 0 False 10) = 32
   \<and> 0 \<le> haloScore (probe 500 1000 0 False 10) \<and> haloScore (probe 500 1000 0 False 10) \<le> 100"
proof -
  let ?d = "probe 500 1000 0 False 10"
  have w: "waterTarget ?d = 0 \<or> 1 \<le> waterTarget ?d"
    by (simp add: probe_def base_def)
  have s: "stepsGoal ?d = 0 \<or> 1 \<le> stepsGoal ?d"
    by (simp add: probe_def base_def)
  have v: "wellnessScore_doubles ?d = 32"
    by (rule wellnessScore_doubles_probe)
  have e: "haloScore ?d = wellnessScore_doubles ?d"
    using conjunct1 [OF conjunct2 [OF conjunct2 [OF conjunct2 [OF conjunct2 [OF conjunct2
      [OF haloScore_mean_of_five [of ?d 0 0]]]]]]] w s
    by blast
  have r: "0 \<le> haloScore ?d" "haloScore ?d \<le> 100"
    using haloScore_mean_of_five [of ?d 0 0] by blast+
  show ?thesis
    by (intro conjI w s e v r)
qed

subsection \<open>Monotonicity\<close>

lemma haloScore_waterMl_mono:
  assumes "waterMl d \<le> w"
  shows "haloScore d \<le> haloScore (d\<lparr>waterMl := w\<rparr>)"
proof -
  have "clamp (fl (fl (waterMl d / max 1 (waterTarget d)) * 100)) 0 100
      \<le> clamp (fl (fl (w / max 1 (waterTarget d)) * 100)) 0 100"
    using assms by (rule percent_mono)
  then show ?thesis
    unfolding haloScore_unfold by (simp add: Math_round_mono mean_mono)
qed

lemma haloScore_steps_mono:
  assumes "steps d \<le> s"
  shows "haloScore d \<le> haloScore (d\<lparr>steps := s\<rparr>)"
proof -
  have "clamp (fl (fl (steps d / max 1 (stepsGoal d)) * 100)) 0 100
      \<le> clamp (fl (fl (s / max 1 (stepsGoal d)) * 100)) 0 100"
    using assms by (rule percent_mono)
  then show ?thesis
    unfolding haloScore_unfold by (simp add: Math_round_mono mean_mono)
qed

lemma haloScore_sleepPct_mono:
  assumes "sleepPct d \<le> p"
  shows "haloScore d \<le> haloScore (d\<lparr>sleepPct := p\<rparr>)"
proof -
  have "clamp (sleepPct d) 0 100 \<le> clamp p 0 100"
    using assms by (rule clamp_mono)
  then show ?thesis
    unfolding haloScore_unfold by (simp add: Math_round_mono mean_mono)
qed

lemma haloScore_prayerDone_mono: "haloScore d \<le> haloScore (d\<lparr>prayerDone := True\<rparr>)"
  unfolding haloScore_unfold by (simp add: Math_round_mono mean_mono)

lemma haloScore_workoutDone_mono: "haloScore d \<le> haloScore (d\<lparr>workoutDone := True\<rparr>)"
  unfolding haloScore_unfold by (simp add: Math_round_mono mean_mono)

lemma haloScore_perfect:
  assumes "max 1 (waterTarget p) \<le> waterMl p" "100 \<le> sleepPct p"
    "max 1 (stepsGoal p) \<le> steps p" "prayerDone p" "workoutDone p"
  shows "haloScore p = 100"
proof -
  have w: "clamp (fl (fl (waterMl p / max 1 (waterTarget p)) * 100)) 0 100 = 100"
    using assms(1) by (rule percent_full)
  have s: "clamp (sleepPct p) 0 100 = 100"
    using assms(2) by (rule clamp_full)
  have t: "clamp (fl (fl (steps p / max 1 (stepsGoal p)) * 100)) 0 100 = 100"
    using assms(3) by (rule percent_full)
  show ?thesis
    unfolding haloScore_unfold w s t using assms(4,5)
    by (simp add: fl_numerals Math_round_def)
qed

lemma haloScore_no_flags:
  assumes "\<not> prayerDone m" "\<not> workoutDone m"
  shows "haloScore m \<le> 74"
proof -
  let ?w = "clamp (fl (fl (waterMl m / max 1 (waterTarget m)) * 100)) 0 100"
  let ?s = "clamp (sleepPct m) 0 100"
  let ?t = "clamp (fl (fl (steps m / max 1 (stepsGoal m)) * 100)) 0 100"
  have "?w \<le> 100" "?s \<le> 100" "?t \<le> 100"
    using clamp_bounds by simp_all
  then have "fl (fl (fl (fl (fl (?w + ?s) + ?t) + 30) + 40) / 5)
      \<le> fl (fl (fl (fl (fl (100 + 100) + 100) + 30) + 40) / 5)"
    by (intro mean_mono) simp_all
  then have "Math_round (fl (fl (fl (fl (fl (?w + ?s) + ?t) + 30) + 40) / 5))
      \<le> Math_round (fl (fl (fl (fl (fl (100 + 100) + 100) + 30) + 40) / 5))"
    by (rule Math_round_mono)
  moreover have "Math_round (fl (fl (fl (fl (fl (100 + 100) + 100) + 30) + 40) / 5)) = 74"
    by (simp add: fl_numerals Math_round_def)
  ultimately show ?thesis
    unfolding haloScore_unfold using assms by simp
qed

lemma haloScore_base:
  "haloScore (base today) = 27"
  "haloScore ((base today)\<lparr>waterMl := 2000, steps := 8000, prayerDone := True,
      workoutDone := True, sleepPct := 90\<rparr>) = 98"
proof -
  have "haloScore (base today) =
     Math_round
       (fl (fl (fl (fl (fl
          (clamp (fl (fl (0 / max 1 2000) * 100)) 0 100 + clamp 50 0 100)
           + clamp (fl (fl (1000 / max 1 8000) * 100)) 0 100)
           + (if False then 100 else 30))
           + (if False then 100 else 40)) / 5))"
    by (rule haloScore_at) (simp_all add: base_def)
  also have "\<dots> = 27"
    by (simp add: fl_eval)
  finally show "haloScore (base today) = 27" .
  have "haloScore ((base today)\<lparr>waterMl := 2000, steps := 8000, prayerDone := True,
      workoutDone := True, sleepPct := 90\<rparr>) =
     Math_round
       (fl (fl (fl (fl (fl
          (clamp (fl (fl (2000 / max 1 2000) * 100)) 0 100 + clamp 90 0 100)
           + clamp (fl (fl (8000 / max 1 8000) * 100)) 0 100)
           + (if True then 100 else 30))
           + (if True then 100 else 40)) / 5))"
    by (rule haloScore_at) (simp_all add: base_def)
  also have "\<dots> = 98"
    by (simp add: fl_eval)
  finally show "haloScore ((base today)\<lparr>waterMl := 2000, steps := 8000, prayerDone := True,
      workoutDone := True, sleepPct := 90\<rparr>) = 98" .
qed

text \<open>
  C7. The score, computed in doubles as the source computes it, does not decrease when
  one of \<open>waterMl\<close>, \<open>steps\<close> and \<open>sleepPct\<close> grows, or when \<open>prayerDone\<close> or
  \<open>workoutDone\<close> goes from false to true, all other fields being equal: rounding to the
  nearest double keeps the order. A day \<open>p\<close> that is perfect in all five (water and
  steps at their targets or above, sleep at 100 or above, both flags set) scores strictly
  more than a day \<open>m\<close> that falls short in all five. The last conjuncts are the assertion
  of the source on its day \<open>base\<close>, which scores 27, and 98 when improved, the score
  40 of \<open>thirds_day\<close>, where the rounding of the quotients decides, and four values
  of the rounding itself: one third, two ties and a number below \<open>2^(-1022)\<close>.
\<close>

theorem haloScore_monotone:
  "(waterMl d \<le> w \<longrightarrow> haloScore d \<le> haloScore (d\<lparr>waterMl := w\<rparr>))
   \<and> (steps d \<le> s \<longrightarrow> haloScore d \<le> haloScore (d\<lparr>steps := s\<rparr>))
   \<and> (sleepPct d \<le> q \<longrightarrow> haloScore d \<le> haloScore (d\<lparr>sleepPct := q\<rparr>))
   \<and> (\<not> prayerDone d \<longrightarrow> haloScore d \<le> haloScore (d\<lparr>prayerDone := True\<rparr>))
   \<and> (\<not> workoutDone d \<longrightarrow> haloScore d \<le> haloScore (d\<lparr>workoutDone := True\<rparr>))
   \<and> (max 1 (waterTarget p) \<le> waterMl p \<and> 100 \<le> sleepPct p \<and> max 1 (stepsGoal p) \<le> steps p
        \<and> prayerDone p \<and> workoutDone p
        \<and> waterMl m < max 1 (waterTarget m) \<and> sleepPct m < 100 \<and> steps m < max 1 (stepsGoal m)
        \<and> \<not> prayerDone m \<and> \<not> workoutDone m
        \<longrightarrow> haloScore m < haloScore p)
   \<and> haloScore (base today)
       < haloScore ((base today)\<lparr>waterMl := 2000, steps := 8000, prayerDone := True,
           workoutDone := True, sleepPct := 90\<rparr>)
   \<and> haloScore (base today) = 27
   \<and> haloScore ((base today)\<lparr>waterMl := 2000, steps := 8000, prayerDone := True,
           workoutDone := True, sleepPct := 90\<rparr>) = 98
   \<and> haloScore thirds_day = 40
   \<and> fl (1 / 3) = 6004799503160661 / 2 ^ 54
   \<and> fl 9007199254740993 = 9007199254740992
   \<and> fl 9007199254740995 = 9007199254740996
   \<and> fl (13 / 10 * 2 powi (- 1074)) = 2 powi (- 1074)"
proof -
  have strict: "max 1 (waterTarget p) \<le> waterMl p \<and> 100 \<le> sleepPct p \<and> max 1 (stepsGoal p) \<le> steps p
        \<and> prayerDone p \<and> workoutDone p
        \<and> waterMl m < max 1 (waterTarget m) \<and> sleepPct m < 100 \<and> steps m < max 1 (stepsGoal m)
        \<and> \<not> prayerDone m \<and> \<not> workoutDone m
        \<longrightarrow> haloScore m < haloScore p"
  proof
    assume h: "max 1 (waterTarget p) \<le> waterMl p \<and> 100 \<le> sleepPct p \<and> max 1 (stepsGoal p) \<le> steps p
        \<and> prayerDone p \<and> workoutDone p
        \<and> waterMl m < max 1 (waterTarget m) \<and> sleepPct m < 100 \<and> steps m < max 1 (stepsGoal m)
        \<and> \<not> prayerDone m \<and> \<not> workoutDone m"
    then have "haloScore p = 100" by (intro haloScore_perfect) simp_all
    moreover from h have "haloScore m \<le> 74" by (intro haloScore_no_flags) simp_all
    ultimately show "haloScore m < haloScore p" by simp
  qed
  have test: "haloScore (base today)
       < haloScore ((base today)\<lparr>waterMl := 2000, steps := 8000, prayerDone := True,
           workoutDone := True, sleepPct := 90\<rparr>)"
    unfolding haloScore_base by simp
  have mono: "waterMl d \<le> w \<longrightarrow> haloScore d \<le> haloScore (d\<lparr>waterMl := w\<rparr>)"
    "steps d \<le> s \<longrightarrow> haloScore d \<le> haloScore (d\<lparr>steps := s\<rparr>)"
    "sleepPct d \<le> q \<longrightarrow> haloScore d \<le> haloScore (d\<lparr>sleepPct := q\<rparr>)"
    "\<not> prayerDone d \<longrightarrow> haloScore d \<le> haloScore (d\<lparr>prayerDone := True\<rparr>)"
    "\<not> workoutDone d \<longrightarrow> haloScore d \<le> haloScore (d\<lparr>workoutDone := True\<rparr>)"
    using haloScore_waterMl_mono haloScore_steps_mono haloScore_sleepPct_mono
      haloScore_prayerDone_mono haloScore_workoutDone_mono
    by blast+
  show ?thesis
    by (intro conjI mono strict test haloScore_base haloScore_thirds_day fl_examples(1,3,4)
        fl_subnormal(3))
qed

text \<open>
  C7 on concrete days: \<open>probe 500 1000 0 False 10\<close> improved in each field in turn, and
  compared with a perfect day.
\<close>

theorem haloScore_monotone_witness:
  "waterMl (probe 500 1000 0 False 10) \<le> 750
   \<and> haloScore (probe 500 1000 0 False 10)
       \<le> haloScore ((probe 500 1000 0 False 10)\<lparr>waterMl := 750\<rparr>)
   \<and> haloScore (probe 500 1000 0 False 10)
       \<le> haloScore ((probe 500 1000 0 False 10)\<lparr>steps := 2000\<rparr>)
   \<and> haloScore (probe 500 1000 0 False 10)
       \<le> haloScore ((probe 500 1000 0 False 10)\<lparr>sleepPct := 80\<rparr>)
   \<and> haloScore (probe 500 1000 0 False 10)
       \<le> haloScore ((probe 500 1000 0 False 10)\<lparr>prayerDone := True\<rparr>)
   \<and> haloScore (probe 500 1000 0 False 10)
       \<le> haloScore ((probe 500 1000 0 False 10)\<lparr>workoutDone := True\<rparr>)
   \<and> haloScore (probe 500 1000 0 False 10)
       < haloScore ((probe 2000 8000 0 True 10)\<lparr>sleepPct := 100, workoutDone := True\<rparr>)"
proof -
  let ?m = "probe 500 1000 0 False 10"
  let ?p = "(probe 2000 8000 0 True 10)\<lparr>sleepPct := 100, workoutDone := True\<rparr>"
  have f: "waterMl ?m = 500" "steps ?m = 1000" "sleepPct ?m = 50" "\<not> prayerDone ?m"
    "\<not> workoutDone ?m" "waterTarget ?m = 2000" "stepsGoal ?m = 8000"
    by (simp_all add: probe_def base_def)
  have g: "waterMl ?p = 2000" "steps ?p = 8000" "sleepPct ?p = 100" "prayerDone ?p"
    "workoutDone ?p" "waterTarget ?p = 2000" "stepsGoal ?p = 8000"
    by (simp_all add: probe_def base_def)
  have w: "waterMl ?m \<le> 750" by (simp add: f)
  have s: "steps ?m \<le> 2000" by (simp add: f)
  have q: "sleepPct ?m \<le> 80" by (simp add: f)
  have strict: "max 1 (waterTarget ?p) \<le> waterMl ?p \<and> 100 \<le> sleepPct ?p
      \<and> max 1 (stepsGoal ?p) \<le> steps ?p \<and> prayerDone ?p \<and> workoutDone ?p
      \<and> waterMl ?m < max 1 (waterTarget ?m) \<and> sleepPct ?m < 100
      \<and> steps ?m < max 1 (stepsGoal ?m) \<and> \<not> prayerDone ?m \<and> \<not> workoutDone ?m"
    by (simp add: probe_def base_def)
  from w s q f(4,5) strict
    haloScore_monotone [of ?m 750 2000 80 ?p ?m "''2025-01-01''"]
  show ?thesis
    by blast
qed

section \<open>The nudge\<close>









section \<open>Completing the day\<close>



text \<open>
  C5. When the day is not complete, \<open>completeDay\<close> leaves the whole state as it is:
  the streak keeps its value and nothing is written to the store. When the day is
  complete and the store holds a record under the previous day's key, the streak grows
  by exactly 1; when it holds nothing there, the streak becomes 1 whatever it was. In
  both cases the new streak is written under the streak key, in decimal. A record is a
  non-empty text, as every serialised day is: the source tests the stored text for
  truth, and an empty text counts as no record. Without a day nothing changes.
\<close>

theorem completeDay_streak:
  "(day app = Some d \<and> \<not> ok d \<longrightarrow> fst (completeDay y app) = app)
   \<and> (day app = Some d \<and> ok d \<and> kv app (K_day y) = Some v \<and> v \<noteq> [] \<longrightarrow>
        streak (fst (completeDay y app)) = streak app + 1
        \<and> kv (fst (completeDay y app)) = (kv app)(K_streak \<mapsto> String_nat (streak app + 1)))
   \<and> (day app = Some d \<and> ok d \<and> kv app (K_day y) = None \<longrightarrow>
        streak (fst (completeDay y app)) = 1
        \<and> kv (fst (completeDay y app)) = (kv app)(K_streak \<mapsto> String_nat 1))
   \<and> (day app = Some d \<and> ok d \<and> kv app (K_day y) = Some [] \<longrightarrow>
        streak (fst (completeDay y app)) = 1)
   \<and> (day app = None \<longrightarrow> fst (completeDay y app) = app)"
proof -
  have incomplete: "day app = Some d \<and> \<not> ok d \<longrightarrow> fst (completeDay y app) = app"
    by (simp add: completeDay_def Let_def)
  have complete: "fst (completeDay y app) =
      app\<lparr>streak := (if truthy (kv app (K_day y)) then streak app + 1 else 1),
          kv := (kv app)(K_streak \<mapsto>
            String_nat (if truthy (kv app (K_day y)) then streak app + 1 else 1))\<rparr>"
    if "day app = Some d" "ok d"
    using that by (simp add: completeDay_def Let_def)
  have present: "truthy (Some v)" if "v \<noteq> []"
    using that by (simp add: truthy_def)
  have absent: "\<not> truthy None" "\<not> truthy (Some [])"
    by (simp_all add: truthy_def)
  have no_day: "day app = None \<longrightarrow> fst (completeDay y app) = app"
    by (simp add: completeDay_def)
  from incomplete no_day show ?thesis
    by (auto simp: complete present absent)
qed

text \<open>
  C5 on a streak of 4: a day just short of the water threshold, a complete day with a
  record for the previous day, with none and with an empty text, and a state without a
  day.
\<close>

theorem completeDay_streak_witness:
  "\<not> ok (probe 1799 7200 0 False 10)
   \<and> fst (completeDay ''2024-12-31''
        \<lparr>day = Some (probe 1799 7200 0 False 10), streak = 4, kv = Map.empty\<rparr>)
       = \<lparr>day = Some (probe 1799 7200 0 False 10), streak = 4, kv = Map.empty\<rparr>
   \<and> ok (probe 1800 7200 0 False 10)
   \<and> streak (fst (completeDay ''2024-12-31''
        \<lparr>day = Some (probe 1800 7200 0 False 10), streak = 4,
         kv = [K_day ''2024-12-31'' \<mapsto> ''{}'']\<rparr>)) = 5
   \<and> streak (fst (completeDay ''2024-12-31''
        \<lparr>day = Some (probe 1800 7200 0 False 10), streak = 4, kv = Map.empty\<rparr>)) = 1
   \<and> streak (fst (completeDay ''2024-12-31''
        \<lparr>day = Some (probe 1800 7200 0 False 10), streak = 4,
         kv = [K_day ''2024-12-31'' \<mapsto> []]\<rparr>)) = 1
   \<and> fst (completeDay ''2024-12-31'' \<lparr>day = None, streak = 4, kv = Map.empty\<rparr>)
       = \<lparr>day = None, streak = 4, kv = Map.empty\<rparr>"
proof -
  let ?y = "''2024-12-31''"
  let ?lo = "probe 1799 7200 0 False 10"
  let ?hi = "probe 1800 7200 0 False 10"
  have lo: "\<not> ok ?lo" by (simp add: ok_def probe_def base_def)
  have hi: "ok ?hi" by (simp add: ok_def probe_def base_def)
  have a: "fst (completeDay ?y \<lparr>day = Some ?lo, streak = 4, kv = Map.empty\<rparr>)
      = \<lparr>day = Some ?lo, streak = 4, kv = Map.empty\<rparr>"
    using completeDay_streak [of "\<lparr>day = Some ?lo, streak = 4, kv = Map.empty\<rparr>" ?lo ?y] lo
    by simp
  have b: "streak (fst (completeDay ?y \<lparr>day = Some ?hi, streak = 4, kv = [K_day ?y \<mapsto> ''{}'']\<rparr>)) = 5"
    using completeDay_streak
      [of "\<lparr>day = Some ?hi, streak = 4, kv = [K_day ?y \<mapsto> ''{}'']\<rparr>" ?hi ?y "''{}''"] hi
    by simp
  have c: "streak (fst (completeDay ?y \<lparr>day = Some ?hi, streak = 4, kv = Map.empty\<rparr>)) = 1"
    using completeDay_streak [of "\<lparr>day = Some ?hi, streak = 4, kv = Map.empty\<rparr>" ?hi ?y] hi
    by simp
  have e: "streak (fst (completeDay ?y \<lparr>day = Some ?hi, streak = 4, kv = [K_day ?y \<mapsto> []]\<rparr>)) = 1"
    using completeDay_streak
      [of "\<lparr>day = Some ?hi, streak = 4, kv = [K_day ?y \<mapsto> []]\<rparr>" ?hi ?y] hi
    by simp
  have n: "fst (completeDay ?y \<lparr>day = None, streak = 4, kv = Map.empty\<rparr>)
      = \<lparr>day = None, streak = 4, kv = Map.empty\<rparr>"
    using completeDay_streak [of "\<lparr>day = None, streak = 4, kv = Map.empty\<rparr>"]
    by simp
  from lo hi a b c e n show ?thesis
    by blast
qed

section \<open>The meal plan\<close>

text \<open>
  \<open>pick_n\<close> returns as many elements as asked for, or the whole list when it is
  shorter. A single draw from a pantry list therefore has a first element.
\<close>

lemma pick_n_length: "length (fst (pick_n xs n g)) = min n (length xs)"
proof (induction n arbitrary: xs g)
  case 0
  show ?case by simp
next
  case (Suc n)
  show ?case
  proof (cases "xs = []")
    case True
    then show ?thesis by simp
  next
    case False
    let ?i = "nat \<lfloor>fst (Math_random g) * real (length xs)\<rfloor>"
    have r: "0 \<le> fst (Math_random g)" "fst (Math_random g) < 1"
      by (simp_all add: Math_random_def frac_lt_1)
    have "fst (Math_random g) * real (length xs) < 1 * real (length xs)"
      using r False by (intro mult_strict_right_mono) simp_all
    then have "\<lfloor>fst (Math_random g) * real (length xs)\<rfloor> < int (length xs)"
      by (simp add: floor_less_iff)
    moreover have "0 \<le> \<lfloor>fst (Math_random g) * real (length xs)\<rfloor>"
      using r by simp
    ultimately have i: "?i < length xs"
      by (simp only: nat_less_iff)
    then have "length (take ?i xs @ drop (Suc ?i) xs) = length xs - 1"
      by simp
    with False Suc.IH [of "take ?i xs @ drop (Suc ?i) xs" "snd (Math_random g)"] i
    show ?thesis
      by (simp add: split_beta Let_def)
  qed
qed

lemma buildMeal_kcal: "kcal (fst (buildMeal t36 ttl k p c f g)) = k"
  by (simp add: buildMeal_def Let_def split_beta)

lemma split_slack:
  fixes a b :: int
  shows "- 1 \<le> 3 * ((2 * a + 3) div 6) + 2 * ((b + 1) div 2) - (a + b)"
    and "3 * ((2 * a + 3) div 6) + 2 * ((b + 1) div 2) - (a + b) \<le> 2"
  by presburger+

lemma generateMealsForDay_kcals:
  "map kcal (fst (fst (generateMealsForDay t36 tdee gl g)))
     = replicate 3 (of_int (Math_round (of_int (Math_round (tdee * 0.75)) / 3)))"
  "map kcal (snd (fst (generateMealsForDay t36 tdee gl g)))
     = replicate 2 (of_int (Math_round ((tdee - of_int (Math_round (tdee * 0.75))) / 2)))"
  by (simp_all add: generateMealsForDay_def Let_def split_beta buildMeal_kcal numeral_3_eq_3
      numeral_2_eq_2)

lemma generateMealsForDay_total:
  "sum_list (map kcal (fst (fst (generateMealsForDay t36 (of_int n) gl g))
       @ snd (fst (generateMealsForDay t36 (of_int n) gl g))))
     = of_int (3 * ((2 * ((3 * n + 2) div 4) + 3) div 6)
         + 2 * ((n - (3 * n + 2) div 4 + 1) div 2))"
proof -
  have s: "(of_int n - of_int ((3 * n + 2) div 4) :: real) = of_int (n - (3 * n + 2) div 4)"
    by simp
  show ?thesis
    unfolding map_append sum_list_append generateMealsForDay_kcals mainKcal_int s
      Math_round_third Math_round_half
    by (simp add: numeral_3_eq_3 numeral_2_eq_2)
qed

text \<open>
  C6. For every whole number \<open>n\<close> of kcal, positive or not, and every goal, generator
  and id rendering, \<open>generateMealsForDay\<close> returns exactly 3 meals and 2 snacks; each
  meal has \<open>round (round (n * 0.75) / 3)\<close> kcal and each snack
  \<open>round ((n - round (n * 0.75)) / 2)\<close> kcal; the five values sum to within 60 kcal of
  \<open>n\<close>. For 2400 kcal the meals have 600 kcal each and the snacks 300 kcal each.
\<close>

theorem generateMealsForDay_kcal:
  "length (fst (fst (generateMealsForDay t36 (of_int n) gl g))) = 3
   \<and> length (snd (fst (generateMealsForDay t36 (of_int n) gl g))) = 2
   \<and> map kcal (fst (fst (generateMealsForDay t36 (of_int n) gl g)))
       = replicate 3 (of_int (Math_round (of_int (Math_round (of_int n * 0.75)) / 3)))
   \<and> map kcal (snd (fst (generateMealsForDay t36 (of_int n) gl g)))
       = replicate 2
           (of_int (Math_round ((of_int n - of_int (Math_round (of_int n * 0.75))) / 2)))
   \<and> \<bar>sum_list (map kcal (fst (fst (generateMealsForDay t36 (of_int n) gl g))
           @ snd (fst (generateMealsForDay t36 (of_int n) gl g)))) - of_int n\<bar> \<le> 60
   \<and> map kcal (fst (fst (generateMealsForDay t36 2400 maintain g))) = [600, 600, 600]
   \<and> map kcal (snd (fst (generateMealsForDay t36 2400 maintain g))) = [300, 300]"
proof -
  let ?r = "generateMealsForDay t36 (of_int n) gl g"
  have l: "length (fst (fst ?r)) = 3" "length (snd (fst ?r)) = 2"
    by (simp_all add: generateMealsForDay_def Let_def split_beta)
  let ?M = "(3 * n + 2) div 4"
  let ?t = "3 * ((2 * ?M + 3) div 6) + 2 * ((n - ?M + 1) div 2)"
  have "- 1 \<le> ?t - (?M + (n - ?M))" "?t - (?M + (n - ?M)) \<le> 2"
    by (rule split_slack)+
  then have "\<bar>?t - n\<bar> \<le> 60"
    by linarith
  then have "(of_int \<bar>?t - n\<bar> :: real) \<le> of_int 60"
    by (simp only: of_int_le_iff)
  then have "\<bar>(of_int ?t :: real) - of_int n\<bar> \<le> 60"
    by simp
  then have b: "\<bar>sum_list (map kcal (fst (fst ?r) @ snd (fst ?r))) - of_int n\<bar> \<le> 60"
    by (simp only: generateMealsForDay_total)
  have m: "map kcal (fst (fst (generateMealsForDay t36 2400 maintain g))) = [600, 600, 600]"
    unfolding generateMealsForDay_kcals by (simp add: Math_round_def numeral_3_eq_3)
  have s: "map kcal (snd (fst (generateMealsForDay t36 2400 maintain g))) = [300, 300]"
    unfolding generateMealsForDay_kcals by (simp add: Math_round_def numeral_2_eq_2)
  from l generateMealsForDay_kcals [of t36 "of_int n" gl g] b m s show ?thesis
    by simp
qed

text \<open>
  C8. Regenerating the plan of an existing day gives a day with 3 meals and 2 snacks
  in which every other field (date, sleepPct, sittingHrs, steps, stepsGoal, waterMl,
  waterTarget, kcalConsumed, kcalTarget, prayerDone, workoutDone) is the one of the day
  before. Without a day there is nothing to regenerate, and no random number is drawn.
\<close>

theorem onRegenerate_frame:
  "onRegenerate t36 onb None g = (None, g)
   \<and> (\<exists>d'. fst (onRegenerate t36 onb (Some d) g) = Some d'
        \<and> length (meals d') = 3 \<and> length (snacks d') = 2
        \<and> date d' = date d \<and> sleepPct d' = sleepPct d \<and> sittingHrs d' = sittingHrs d
        \<and> steps d' = steps d \<and> stepsGoal d' = stepsGoal d \<and> waterMl d' = waterMl d
        \<and> waterTarget d' = waterTarget d \<and> kcalConsumed d' = kcalConsumed d
        \<and> kcalTarget d' = kcalTarget d \<and> prayerDone d' = prayerDone d
        \<and> workoutDone d' = workoutDone d
        \<and> d' = d\<lparr>meals := meals d', snacks := snacks d'\<rparr>)"
proof -
  let ?r = "generateMealsForDay t36 (of_int (tdeeFrom onb)) (goal onb) g"
  have l: "length (fst (fst ?r)) = 3" "length (snd (fst ?r)) = 2"
    by (simp_all add: generateMealsForDay_def Let_def split_beta)
  have e: "fst (onRegenerate t36 onb (Some d) g)
      = Some (d\<lparr>meals := fst (fst ?r), snacks := snd (fst ?r)\<rparr>)"
    by (simp add: onRegenerate_def Let_def split_beta)
  have n: "onRegenerate t36 onb None g = (None, g)"
    by (simp add: onRegenerate_def)
  from l e n show ?thesis
    by simp
qed

section \<open>Durations\<close>

lemma decimal_snoc: "decimal (s @ [c]) = 10 * decimal s + (of_char c - 48)"
  by (simp add: decimal_def)

lemma digit_chars:
  "char_of (48 + (0::nat)) = CHR ''0''" "char_of (48 + (1::nat)) = CHR ''1''"
  "char_of (48 + (2::nat)) = CHR ''2''" "char_of (48 + (3::nat)) = CHR ''3''"
  "char_of (48 + (4::nat)) = CHR ''4''" "char_of (48 + (5::nat)) = CHR ''5''"
  "char_of (48 + (6::nat)) = CHR ''6''" "char_of (48 + (7::nat)) = CHR ''7''"
  "char_of (48 + (8::nat)) = CHR ''8''" "char_of (48 + (9::nat)) = CHR ''9''"
  by code_simp+

lemma digit_char:
  fixes k :: nat
  assumes "k < 10"
  shows "(of_char (char_of (48 + k) :: char) :: nat) = 48 + k"
    and "char_of (48 + k) \<in> set ''0123456789''"
    and "char_of (48 + k) = CHR ''0'' \<longleftrightarrow> k = 0"
proof -
  show "(of_char (char_of (48 + k) :: char) :: nat) = 48 + k"
    using assms by simp
  from assms have "k = 0 \<or> k = 1 \<or> k = 2 \<or> k = 3 \<or> k = 4 \<or> k = 5 \<or> k = 6 \<or> k = 7
      \<or> k = 8 \<or> k = 9"
    by presburger
  then show "char_of (48 + k) \<in> set ''0123456789''"
    by (elim disjE) (simp_all only: digit_chars, simp_all)
  from \<open>k = 0 \<or> k = 1 \<or> k = 2 \<or> k = 3 \<or> k = 4 \<or> k = 5 \<or> k = 6 \<or> k = 7
      \<or> k = 8 \<or> k = 9\<close>
  show "char_of (48 + k) = CHR ''0'' \<longleftrightarrow> k = 0"
    by (elim disjE) (simp_all only: digit_chars, simp_all)
qed

lemma String_nat_decimal: "decimal (String_nat n) = n"
proof (induction n rule: String_nat.induct)
  case (1 n)
  show ?case
  proof (cases "n < 10")
    case True
    then show ?thesis
      by (subst String_nat.simps) (simp add: decimal_def digit_char(1))
  next
    case False
    have d: "n mod 10 < 10" by simp
    from False "1.IH" have "decimal (String_nat (n div 10)) = n div 10" by simp
    with False show ?thesis
      by (subst String_nat.simps) (simp add: decimal_snoc digit_char(1) [OF d])
  qed
qed

lemma String_nat_digits: "set (String_nat n) \<subseteq> set ''0123456789''"
proof (induction n rule: String_nat.induct)
  case (1 n)
  show ?case
  proof (cases "n < 10")
    case True
    then show ?thesis
      using digit_char(2) [of n] by (subst String_nat.simps) simp
  next
    case False
    have d: "n mod 10 < 10" by simp
    from False "1.IH" have "set (String_nat (n div 10)) \<subseteq> set ''0123456789''" by simp
    with False digit_char(2) [OF d] show ?thesis
      by (subst String_nat.simps) simp
  qed
qed

lemma String_nat_nonempty: "String_nat n \<noteq> []"
  by (subst String_nat.simps) simp

lemma String_nat_leading: "hd (String_nat n) = CHR ''0'' \<longleftrightarrow> n = 0"
proof (induction n rule: String_nat.induct)
  case (1 n)
  show ?case
  proof (cases "n < 10")
    case True
    then show ?thesis
      using digit_char(3) [of n] by (subst String_nat.simps) simp
  next
    case False
    then have "n div 10 \<noteq> 0" by simp
    with False "1.IH" have "hd (String_nat (n div 10)) \<noteq> CHR ''0''" by simp
    with False String_nat_nonempty [of "n div 10"] show ?thesis
      by (subst String_nat.simps) simp
  qed
qed

text \<open>
  C9. For every whole number \<open>m\<close> of minutes, \<open>formatTime\<close> returns the minutes and
  the minute label when \<open>m < 60\<close>, and otherwise \<open>m div 60\<close> with the hour label
  followed by \<open>m mod 60\<close> with the minute label, separated by single spaces. The labels
  are the source's: the minute label is the Arabic letter dal (bytes D8 AF), the hour
  label the Arabic letter seen (bytes D8 B3), where the specification writes "min" and
  "hr". A number is written in decimal: \<open>String_nat\<close> gives digits only, which denote
  the number, with no leading zero. \<open>formatTime 45\<close> is "45", a space and the minute
  label; \<open>formatTime 125\<close> is "2", the hour label, "5" and the minute label, so it
  contains "2" followed by a space and the hour label.
\<close>

theorem formatTime_forms:
  "(m < 60 \<longrightarrow> formatTime m = String_nat m @ '' '' @ [CHR 0xD8, CHR 0xAF])
   \<and> (60 \<le> m \<longrightarrow>
        formatTime m =
          String_nat (m div 60) @ '' '' @ [CHR 0xD8, CHR 0xB3] @ '' ''
            @ String_nat (m mod 60) @ '' '' @ [CHR 0xD8, CHR 0xAF])
   \<and> decimal (String_nat m) = m
   \<and> set (String_nat m) \<subseteq> set ''0123456789''
   \<and> (hd (String_nat m) = CHR ''0'' \<longleftrightarrow> m = 0)
   \<and> formatTime 45 = ''45 '' @ [CHR 0xD8, CHR 0xAF]
   \<and> formatTime 125 = ''2 '' @ [CHR 0xD8, CHR 0xB3] @ '' 5 '' @ [CHR 0xD8, CHR 0xAF]
   \<and> (\<exists>pre post. formatTime 125 = pre @ (''2 '' @ [CHR 0xD8, CHR 0xB3]) @ post)"
proof -
  have a: "String_nat 45 = ''45''" by code_simp
  have b: "String_nat 2 = ''2''" by code_simp
  have c: "String_nat 5 = ''5''" by code_simp
  have d: "formatTime 45 = ''45 '' @ [CHR 0xD8, CHR 0xAF]"
    by (simp add: formatTime_def unit_min_def a)
  have e: "formatTime 125 = ''2 '' @ [CHR 0xD8, CHR 0xB3] @ '' 5 '' @ [CHR 0xD8, CHR 0xAF]"
    by (simp add: formatTime_def unit_min_def unit_hr_def Let_def b c)
  have f: "\<exists>pre post. formatTime 125 = pre @ (''2 '' @ [CHR 0xD8, CHR 0xB3]) @ post"
  proof (intro exI)
    show "formatTime 125
        = [] @ (''2 '' @ [CHR 0xD8, CHR 0xB3]) @ ('' 5 '' @ [CHR 0xD8, CHR 0xAF])"
      unfolding e by simp
  qed
  have g: "m < 60 \<longrightarrow> formatTime m = String_nat m @ '' '' @ [CHR 0xD8, CHR 0xAF]"
    by (simp add: formatTime_def unit_min_def)
  have h: "60 \<le> m \<longrightarrow>
        formatTime m =
          String_nat (m div 60) @ '' '' @ [CHR 0xD8, CHR 0xB3] @ '' ''
            @ String_nat (m mod 60) @ '' '' @ [CHR 0xD8, CHR 0xAF]"
    by (simp add: formatTime_def unit_min_def unit_hr_def Let_def)
  have i: "decimal (String_nat m) = m"
    by (rule String_nat_decimal)
  have j: "set (String_nat m) \<subseteq> set ''0123456789''"
    by (rule String_nat_digits)
  have k: "hd (String_nat m) = CHR ''0'' \<longleftrightarrow> m = 0"
    by (rule String_nat_leading)
  show ?thesis
    by (intro conjI g h i j k d e f)
qed

text \<open>
  C9 at 45 and at 125 minutes.
\<close>

theorem formatTime_forms_witness:
  "(45 :: nat) < 60 \<and> formatTime 45 = String_nat 45 @ '' '' @ [CHR 0xD8, CHR 0xAF]
   \<and> (60 :: nat) \<le> 125
   \<and> formatTime 125 =
       String_nat (125 div 60) @ '' '' @ [CHR 0xD8, CHR 0xB3] @ '' ''
         @ String_nat (125 mod 60) @ '' '' @ [CHR 0xD8, CHR 0xAF]
   \<and> decimal (String_nat 125) = 125"
proof -
  have a: "(45 :: nat) < 60" and b: "(60 :: nat) \<le> 125"
    by simp_all
  have c: "formatTime 45 = String_nat 45 @ '' '' @ [CHR 0xD8, CHR 0xAF]"
    by (rule mp [OF conjunct1 [OF formatTime_forms [of 45]] a])
  have d: "formatTime 125 =
       String_nat (125 div 60) @ '' '' @ [CHR 0xD8, CHR 0xB3] @ '' ''
         @ String_nat (125 mod 60) @ '' '' @ [CHR 0xD8, CHR 0xAF]"
    by (rule mp [OF conjunct1 [OF conjunct2 [OF formatTime_forms [of 125]]] b])
  have e: "decimal (String_nat 125) = 125"
    by (rule conjunct1 [OF conjunct2 [OF conjunct2 [OF formatTime_forms [of 125]]]])
  show ?thesis
    by (intro conjI a b c d e)
qed

end
